theory Spec2Isabelle
  imports Main
begin

section \<open>Streaming transcription panel (components/TranscriptionPanel.tsx)\<close>

subsection \<open>Messages of the live session\<close>

text \<open>
  The handler \<^verbatim>\<open>onmessage\<close> reads three optional parts of a server message:
  \<^verbatim>\<open>message.serverContent?.inputTranscription\<close> (an object with a \<^verbatim>\<open>text\<close> field),
  \<^verbatim>\<open>message.serverContent?.turnComplete\<close> and the audio of the model's turn,
  \<^verbatim>\<open>message.serverContent?.modelTurn?.parts[0]?.inlineData.data\<close>. An absent JavaScript
  value is \<open>None\<close>.
\<close>

record input_transcription =
  text_of :: "string option"  \<comment> \<open>the field \<^verbatim>\<open>text\<close>\<close>

record inline_data =
  data_of :: "string option"  \<comment> \<open>the field \<^verbatim>\<open>data\<close>\<close>

record part =
  inlineData :: "inline_data option"

record model_turn =
  parts :: "part list option"

record server_content =
  inputTranscription :: "input_transcription option"
  turnComplete :: "bool option"
  modelTurn :: "model_turn option"

record live_message =
  serverContent :: "server_content option"

text \<open>JavaScript's \<^verbatim>\<open>s += v\<close> on a string: an undefined \<open>v\<close> is appended as the word
  \<^verbatim>\<open>undefined\<close>.\<close>

definition js_append :: "string \<Rightarrow> string option \<Rightarrow> string" where
  "js_append s v = (case v of None \<Rightarrow> s @ ''undefined'' | Some t \<Rightarrow> s @ t)"

subsection \<open>State of the panel and its effects\<close>

text \<open>The one value read from the environment, \<^verbatim>\<open>process.env.API_KEY\<close>. The test
  \<^verbatim>\<open>!process.env.API_KEY\<close> holds for an undefined and for an empty key.\<close>

record env =
  API_KEY :: "string option"

definition no_API_KEY :: "env \<Rightarrow> bool" where
  "no_API_KEY e = (case API_KEY e of None \<Rightarrow> True | Some k \<Rightarrow> k = [])"

text \<open>
  Calls that leave the component are recorded, in the order they are made, in a log.
  A session is named by a number: the promise returned by the \<open>n\<close>-th call of
  \<^verbatim>\<open>ai.live.connect\<close> is session \<open>n\<close>, counted from 0. A chunk of samples is a list; the
  type of a sample is left open (the encoding of a chunk into a base64 PCM blob by
  \<^verbatim>\<open>createGenAIBlob\<close> is done by utils/audioUtils and does not change which samples are
  sent).
\<close>

type_synonym session_id = nat

datatype 'a effect =
    Connect session_id  \<comment> \<open>\<^verbatim>\<open>ai.live.connect({...})\<close>\<close>
  | SessionClose session_id  \<comment> \<open>\<^verbatim>\<open>promise.then(session => session.close())\<close>\<close>
  | SendRealtimeInput session_id "'a list"  \<comment> \<open>\<^verbatim>\<open>session.sendRealtimeInput({media: createGenAIBlob(chunk)})\<close>\<close>
  | Delay nat  \<comment> \<open>\<^verbatim>\<open>await new Promise(resolve => setTimeout(resolve, ms))\<close>\<close>
  | SetTimeout nat  \<comment> \<open>\<^verbatim>\<open>setTimeout(callback, ms)\<close>, not awaited\<close>
  | GetUserMedia  \<comment> \<open>\<^verbatim>\<open>navigator.mediaDevices.getUserMedia({audio: true})\<close>\<close>
  | TracksStop  \<comment> \<open>\<^verbatim>\<open>getTracks().forEach(track => track.stop())\<close>\<close>
  | ProcessorDisconnect
  | SourceDisconnect
  | ContextClose  \<comment> \<open>\<^verbatim>\<open>close()\<close> of an \<^verbatim>\<open>AudioContext\<close>\<close>
  | ReadFile  \<comment> \<open>\<^verbatim>\<open>file.arrayBuffer()\<close>\<close>
  | DecodeAudioData
  | Resample  \<comment> \<open>\<^verbatim>\<open>resampleAudioBuffer(decodedBuffer, TARGET_SAMPLE_RATE)\<close>\<close>

fun is_Connect :: "'a effect \<Rightarrow> bool" where
  "is_Connect (Connect sid) = True"
| "is_Connect e = False"

definition fresh_session :: "'a effect list \<Rightarrow> session_id" where
  "fresh_session effs = length (filter is_Connect effs)"

datatype context_state = Suspended | Running | Closed
datatype media_stream = MediaStream
datatype script_processor = ScriptProcessor
datatype stream_source = StreamSource

text \<open>
  The React state of the component (\<^verbatim>\<open>useState\<close>), its refs (\<^verbatim>\<open>useRef\<close>, \<open>None\<close> for
  \<^verbatim>\<open>null\<close>) and the log. The tab \<^verbatim>\<open>mode\<close> only selects what is rendered and is left out.
  A state update is taken to be visible to the next handler that runs. A handler that
  awaits is run to its end in one step, with the outcome of what it awaits as an
  argument; the callbacks it leaves behind (of the session, of a timer, of the audio
  node) are functions of their own.
\<close>

record 'a panel =
  isRecording :: bool
  isProcessing :: bool
  transcription :: string
  error :: "string option"
  sessionPromiseRef :: "session_id option"
  audioContextRef :: "context_state option"
  mediaStreamRef :: "media_stream option"
  scriptProcessorRef :: "script_processor option"
  mediaStreamSourceRef :: "stream_source option"
  effects :: "'a effect list"

definition initial_panel :: "'a panel" where
  "initial_panel =
     \<lparr>isRecording = False, isProcessing = False, transcription = [], error = None,
      sessionPromiseRef = None, audioContextRef = None, mediaStreamRef = None,
      scriptProcessorRef = None, mediaStreamSourceRef = None, effects = []\<rparr>"

definition emit :: "'a effect list \<Rightarrow> 'a panel \<Rightarrow> 'a panel" where
  "emit es s = s\<lparr>effects := effects s @ es\<rparr>"

text \<open>The messages shown to the user. Two of them have accented letters, written here
  as their UTF-8 bytes.\<close>

definition API_KEY_NOT_SET :: string where
  "API_KEY_NOT_SET = ''API_KEY environment variable not set.''"

definition SESSION_ERROR :: string where
  "SESSION_ERROR = ''Error en la sesi'' @ [CHR 0xC3, CHR 0xB3] @ ''n de transcripci''
     @ [CHR 0xC3, CHR 0xB3] @ ''n. Intente de nuevo.''"

definition MICROPHONE_ERROR :: string where
  "MICROPHONE_ERROR = ''No se pudo acceder al micr'' @ [CHR 0xC3, CHR 0xB3]
     @ ''fono. Por favor, verifique los permisos.''"

definition AUDIO_FILE_ERROR :: string where
  "AUDIO_FILE_ERROR = ''Error al procesar el archivo de audio.''"

subsection \<open>The session: startSession, its callbacks, stopSession\<close>

text \<open>
  \<^verbatim>\<open>startSession\<close> returns \<^verbatim>\<open>null\<close> (\<open>None\<close>) without a key; otherwise it calls
  \<^verbatim>\<open>ai.live.connect\<close>, stores the promise in \<^verbatim>\<open>sessionPromiseRef\<close> and returns it. It
  does not look at the promise already in the ref.
\<close>

definition startSession :: "env \<Rightarrow> 'a panel \<Rightarrow> session_id option \<times> 'a panel" where
  "startSession e s =
     (if no_API_KEY e then (None, s\<lparr>error := Some API_KEY_NOT_SET\<rparr>)
      else (let sid = fresh_session (effects s)
            in (Some sid, (emit [Connect sid] s)\<lparr>sessionPromiseRef := Some sid\<rparr>)))"

definition onopen :: "'a panel \<Rightarrow> 'a panel" where
  "onopen s = s\<lparr>error := None\<rparr>"

text \<open>
  \<^verbatim>\<open>onmessage\<close> writes two variables: \<^verbatim>\<open>currentTranscription\<close>, a local variable of
  \<^verbatim>\<open>startSession\<close> (initially the empty string) captured by the callbacks of that one
  session, and the React state \<^verbatim>\<open>transcription\<close>, which is what the panel displays. The
  local variable is passed in and returned next to the panel.
\<close>

definition onmessage :: "live_message \<Rightarrow> string \<times> 'a panel \<Rightarrow> string \<times> 'a panel" where
  "onmessage message cs =
     (let (currentTranscription, s) = cs;
          (cur1, s1) =
            (case serverContent message of
               None \<Rightarrow> (currentTranscription, s)
             | Some sc \<Rightarrow>
                 (case inputTranscription sc of
                    None \<Rightarrow> (currentTranscription, s)
                  | Some tr \<Rightarrow>
                      (let cur = js_append currentTranscription (text_of tr)
                       in (cur, s\<lparr>transcription := cur\<rparr>))))
      in (case serverContent message of
            None \<Rightarrow> (cur1, s1)
          | Some sc \<Rightarrow>
              (if turnComplete sc = Some True then (cur1 @ '' '', s1) else (cur1, s1))))"

text \<open>
  The last statement of \<^verbatim>\<open>onmessage\<close> reads the audio of the model's turn and does
  nothing with it. The read comes after both writes, so it changes no variable; it throws
  a \<^verbatim>\<open>TypeError\<close>, out of the callback, when the turn has no \<^verbatim>\<open>parts\<close>, or when its
  first part is there and has no \<^verbatim>\<open>inlineData\<close>. An empty list of parts does not throw:
  \<^verbatim>\<open>parts[0]?.\<close> stops at the undefined element.
\<close>

definition onmessage_throws :: "live_message \<Rightarrow> bool" where
  "onmessage_throws message =
     (case serverContent message of
        None \<Rightarrow> False
      | Some sc \<Rightarrow>
          (case modelTurn sc of
             None \<Rightarrow> False
           | Some mt \<Rightarrow>
               (case parts mt of
                  None \<Rightarrow> True
                | Some ps \<Rightarrow> (case ps of [] \<Rightarrow> False | p # rest \<Rightarrow> inlineData p = None))))"

definition onerror :: "'a panel \<Rightarrow> 'a panel" where
  "onerror s = s\<lparr>error := Some SESSION_ERROR, isRecording := False, isProcessing := False\<rparr>"

definition stopSession :: "'a panel \<Rightarrow> 'a panel" where
  "stopSession s =
     (case sessionPromiseRef s of
        None \<Rightarrow> s
      | Some sid \<Rightarrow> (emit [SessionClose sid] s)\<lparr>sessionPromiseRef := None\<rparr>)"

text \<open>Messages are handled one at a time, in the order the session delivers them.\<close>

fun deliver :: "live_message list \<Rightarrow> string \<times> 'a panel \<Rightarrow> string \<times> 'a panel" where
  "deliver [] cs = cs"
| "deliver (m # ms) cs = deliver ms (onmessage m cs)"

subsection \<open>Live recording: startRecording, stopRecording\<close>

text \<open>
  How far the \<^verbatim>\<open>try\<close> block of \<^verbatim>\<open>startRecording\<close> gets: each constructor but the last
  names the call that throws, and \<^verbatim>\<open>Capturing\<close> is the run in which none does. The refs
  assigned before the throw keep their values.
\<close>

datatype capture_outcome =
    GetUserMediaFailed
  | AudioContextFailed
  | CreateSourceFailed
  | CreateProcessorFailed
  | ConnectNodesFailed
  | Capturing

definition try_capture :: "capture_outcome \<Rightarrow> 'a panel \<Rightarrow> bool \<times> 'a panel" where
  "try_capture outcome s =
     (let s1 = emit [GetUserMedia] s in
      if outcome = GetUserMediaFailed then (False, s1) else
      let s2 = s1\<lparr>mediaStreamRef := Some MediaStream\<rparr> in
      if outcome = AudioContextFailed then (False, s2) else
      let s3 = s2\<lparr>audioContextRef := Some Running\<rparr> in
      if outcome = CreateSourceFailed then (False, s3) else
      let s4 = s3\<lparr>mediaStreamSourceRef := Some StreamSource\<rparr> in
      if outcome = CreateProcessorFailed then (False, s4) else
      let s5 = s4\<lparr>scriptProcessorRef := Some ScriptProcessor\<rparr> in
      if outcome = ConnectNodesFailed then (False, s5) else (True, s5))"

definition startRecording :: "env \<Rightarrow> capture_outcome \<Rightarrow> 'a panel \<Rightarrow> 'a panel" where
  "startRecording e outcome s =
     (if isRecording s then s
      else
        (let s1 = s\<lparr>transcription := [], error := None, isRecording := True\<rparr>;
             (sessionPromise, s2) = startSession e s1
         in case sessionPromise of
              None \<Rightarrow> s2\<lparr>isRecording := False\<rparr>
            | Some sid \<Rightarrow>
                (let (ok, s3) = try_capture outcome s2
                 in if ok then s3
                    else stopSession (s3\<lparr>error := Some MICROPHONE_ERROR, isRecording := False\<rparr>))))"

text \<open>The audio callback installed by a successful \<^verbatim>\<open>startRecording\<close>: one block of
  samples is sent to the session of that recording.\<close>

definition onaudioprocess :: "session_id \<Rightarrow> 'a list \<Rightarrow> 'a panel \<Rightarrow> 'a panel" where
  "onaudioprocess sid inputData s = emit [SendRealtimeInput sid inputData] s"

definition release_effects :: "'a panel \<Rightarrow> 'a effect list" where
  "release_effects s =
     (if mediaStreamRef s \<noteq> None then [TracksStop] else [])
     @ (if scriptProcessorRef s \<noteq> None then [ProcessorDisconnect] else [])
     @ (if mediaStreamSourceRef s \<noteq> None then [SourceDisconnect] else [])
     @ (case audioContextRef s of
          None \<Rightarrow> []
        | Some st \<Rightarrow> if st \<noteq> Closed then [ContextClose] else [])"

definition stopRecording :: "'a panel \<Rightarrow> 'a panel" where
  "stopRecording s =
     (let s1 = stopSession (s\<lparr>isRecording := False\<rparr>);
          s2 = emit (release_effects s1) s1
      in s2\<lparr>mediaStreamRef := None, scriptProcessorRef := None,
            mediaStreamSourceRef := None, audioContextRef := None\<rparr>)"

text \<open>The button of the record tab: \<^verbatim>\<open>onClick={isRecording ? stopRecording : startRecording}\<close>.\<close>

definition record_button :: "env \<Rightarrow> capture_outcome \<Rightarrow> 'a panel \<Rightarrow> 'a panel" where
  "record_button e outcome s = (if isRecording s then stopRecording s else startRecording e outcome s)"

fun startRecordings :: "env \<Rightarrow> capture_outcome list \<Rightarrow> 'a panel \<Rightarrow> 'a panel" where
  "startRecordings e [] s = s"
| "startRecordings e (c # cs) s = startRecordings e cs (startRecording e c s)"

text \<open>A run of the two handlers of the record tab, in any order.\<close>

datatype recording_call = StartRecording capture_outcome | StopRecording

fun invoke :: "env \<Rightarrow> recording_call \<Rightarrow> 'a panel \<Rightarrow> 'a panel" where
  "invoke e (StartRecording c) s = startRecording e c s"
| "invoke e StopRecording s = stopRecording s"

fun invokes :: "env \<Rightarrow> recording_call list \<Rightarrow> 'a panel \<Rightarrow> 'a panel" where
  "invokes e [] s = s"
| "invokes e (c # cs) s = invokes e cs (invoke e c s)"

subsection \<open>File upload: handleFileUpload\<close>

text \<open>\<^verbatim>\<open>audioData.slice(i, j)\<close> of a typed array, for \<open>0 \<le> i \<le> j\<close>: the elements from
  index \<open>i\<close> up to, not including, index \<open>j\<close> or the end of the array.\<close>

definition slice :: "'a list \<Rightarrow> nat \<Rightarrow> nat \<Rightarrow> 'a list" where
  "slice xs i j = take (j - i) (drop i xs)"

definition chunkSize :: nat where
  "chunkSize = 4096"

text \<open>The loop \<^verbatim>\<open>for (let i = 0; i < audioData.length; i += chunkSize)\<close>, from index
  \<open>i\<close> on: the calls it makes, in order.\<close>

function sendChunks :: "session_id \<Rightarrow> nat \<Rightarrow> 'a list \<Rightarrow> 'a effect list" where
  "sendChunks sid i audioData =
     (if i < length audioData then
        (let chunk = slice audioData i (i + chunkSize)
         in (if length chunk > 0 then [SendRealtimeInput sid chunk] else [])
            @ [Delay 50]
            @ sendChunks sid (i + chunkSize) audioData)
      else [])"
  by pat_completeness auto
termination
  by (relation "measure (\<lambda>(sid, i, audioData). length audioData - i)")
     (auto simp: chunkSize_def)

declare sendChunks.simps [simp del]

text \<open>The number of chunks of a buffer of \<open>n\<close> samples: \<open>n / chunkSize\<close>, rounded up.\<close>

definition chunk_count :: "nat \<Rightarrow> nat" where
  "chunk_count n = (n + chunkSize - 1) div chunkSize"

text \<open>
  What the \<^verbatim>\<open>try\<close> block of \<^verbatim>\<open>handleFileUpload\<close> meets before its loop: the call that
  throws or whose promise is rejected, or the samples of channel 0 of the resampled
  buffer. The calls are, in order: \<^verbatim>\<open>new AudioContext()\<close>, \<^verbatim>\<open>file.arrayBuffer()\<close>,
  \<^verbatim>\<open>decodeAudioData\<close>, \<^verbatim>\<open>tempAudioContext.close()\<close>, \<^verbatim>\<open>resampleAudioBuffer\<close> and
  \<^verbatim>\<open>await sessionPromise\<close>. The log holds those that were made.
\<close>

datatype 'a audio_outcome =
    NewContextFailed
  | ArrayBufferFailed
  | DecodeFailed
  | CloseFailed
  | ResampleFailed
  | SessionRejected
  | AudioData "'a list"

fun prepare_effects :: "'a audio_outcome \<Rightarrow> 'a effect list" where
  "prepare_effects NewContextFailed = []"
| "prepare_effects ArrayBufferFailed = [ReadFile]"
| "prepare_effects DecodeFailed = [ReadFile, DecodeAudioData]"
| "prepare_effects CloseFailed = [ReadFile, DecodeAudioData, ContextClose]"
| "prepare_effects ResampleFailed = [ReadFile, DecodeAudioData, ContextClose, Resample]"
| "prepare_effects SessionRejected = [ReadFile, DecodeAudioData, ContextClose, Resample]"
| "prepare_effects (AudioData audioData) = [ReadFile, DecodeAudioData, ContextClose, Resample]"

text \<open>The file is \<^verbatim>\<open>event.target.files?.[0]\<close>; only its presence is looked at here.\<close>

record js_file =
  file_name :: string  \<comment> \<open>\<^verbatim>\<open>file.name\<close>\<close>
  file_type :: string  \<comment> \<open>\<^verbatim>\<open>file.type\<close>, the MIME type\<close>

definition handleFileUpload ::
  "env \<Rightarrow> js_file option \<Rightarrow> 'a audio_outcome \<Rightarrow> 'a panel \<Rightarrow> 'a panel" where
  "handleFileUpload e fileopt outcome s =
     (case fileopt of
        None \<Rightarrow> s
      | Some f \<Rightarrow>
          (let s1 = s\<lparr>transcription := [], error := None, isProcessing := True\<rparr>;
               (sessionPromise, s2) = startSession e s1
           in case sessionPromise of
                None \<Rightarrow> s2\<lparr>isProcessing := False\<rparr>
              | Some sid \<Rightarrow>
                  (let s3 = emit (prepare_effects outcome) s2
                   in case outcome of
                        AudioData audioData \<Rightarrow>
                          emit (sendChunks sid 0 audioData @ [SetTimeout 2000]) s3
                      | _ \<Rightarrow>
                          stopSession (s3\<lparr>error := Some AUDIO_FILE_ERROR, isProcessing := False\<rparr>))))"

text \<open>The callback of the 2000 ms timer set after the last chunk.\<close>

definition upload_timeout :: "'a panel \<Rightarrow> 'a panel" where
  "upload_timeout s = (stopSession s)\<lparr>isProcessing := False\<rparr>"

subsection \<open>Reading the log\<close>

text \<open>The chunks sent, the sessions connected, and the sessions open after a log: those
  connected whose close has not been requested.\<close>

fun sent_chunks :: "'a effect list \<Rightarrow> 'a list list" where
  "sent_chunks [] = []"
| "sent_chunks (SendRealtimeInput sid c # es) = c # sent_chunks es"
| "sent_chunks (e # es) = sent_chunks es"

fun connects :: "'a effect list \<Rightarrow> session_id list" where
  "connects [] = []"
| "connects (Connect sid # es) = sid # connects es"
| "connects (e # es) = connects es"

fun session_step :: "session_id list \<Rightarrow> 'a effect \<Rightarrow> session_id list" where
  "session_step opn (Connect sid) = opn @ [sid]"
| "session_step opn (SessionClose sid) = removeAll sid opn"
| "session_step opn e = opn"

definition open_sessions :: "'a effect list \<Rightarrow> session_id list" where
  "open_sessions effs = foldl session_step [] effs"

text \<open>No two sessions are open at any point of the log.\<close>

definition never_concurrent :: "'a effect list \<Rightarrow> bool" where
  "never_concurrent effs =
     list_all (\<lambda>n. length (open_sessions (take n effs)) \<le> 1) [0..<Suc (length effs)]"

subsection \<open>Transcript events\<close>

text \<open>
  The two events of the specification, and the message that carries each: a partial
  text is a message with an input transcription and no turn boundary, a turn boundary is
  a message with \<^verbatim>\<open>turnComplete\<close> set and no input transcription. Neither has a model
  turn.
\<close>

datatype transcript_event = PartialText string | TurnComplete

fun message_of :: "transcript_event \<Rightarrow> live_message" where
  "message_of (PartialText s) =
     \<lparr>serverContent = Some \<lparr>inputTranscription = Some \<lparr>text_of = Some s\<rparr>, turnComplete = None,
                             modelTurn = None\<rparr>\<rparr>"
| "message_of TurnComplete =
     \<lparr>serverContent = Some \<lparr>inputTranscription = None, turnComplete = Some True,
                             modelTurn = None\<rparr>\<rparr>"

text \<open>What the specification says an event appends to the running transcript.\<close>

fun spec_delta :: "transcript_event \<Rightarrow> string" where
  "spec_delta (PartialText s) = s"
| "spec_delta TurnComplete = '' ''"

definition spec_fold :: "string \<Rightarrow> transcript_event list \<Rightarrow> string" where
  "spec_fold t evs = foldl (\<lambda>acc e. acc @ spec_delta e) t evs"

text \<open>The events of a sequence up to its last partial text: trailing turn boundaries
  dropped.\<close>

fun is_turn_complete :: "transcript_event \<Rightarrow> bool" where
  "is_turn_complete TurnComplete = True"
| "is_turn_complete (PartialText s) = False"

definition drop_trailing_turns :: "transcript_event list \<Rightarrow> transcript_event list" where
  "drop_trailing_turns evs = rev (dropWhile is_turn_complete (rev evs))"


section \<open>Text-to-speech panel (components/TextToSpeechPanel.tsx, services/geminiService.ts)\<close>

subsection \<open>State of the panel\<close>

text \<open>
  The log of this panel holds the calls to the libraries and services, and the calls of
  \<^verbatim>\<open>setAudioUrl\<close>, so that the log orders them.
\<close>

datatype reader_kind = PdfReader | DocxReader

datatype tts_effect =
    SetAudioUrl "string option"
  | ReadAsArrayBuffer reader_kind  \<comment> \<open>\<^verbatim>\<open>reader.readAsArrayBuffer(file)\<close>, with the \<^verbatim>\<open>onload\<close> installed\<close>
  | PdfGetDocument  \<comment> \<open>\<^verbatim>\<open>pdfjsLib.getDocument({data})\<close>\<close>
  | PdfGetPage nat  \<comment> \<open>\<^verbatim>\<open>pdf.getPage(i)\<close> and \<^verbatim>\<open>page.getTextContent()\<close>\<close>
  | ExtractRawText  \<comment> \<open>\<^verbatim>\<open>mammoth.extractRawText({arrayBuffer})\<close>\<close>
  | GenerateContent string  \<comment> \<open>\<^verbatim>\<open>ai.models.generateContent\<close> on the text\<close>
  | ResetFileInput  \<comment> \<open>\<^verbatim>\<open>event.target.value = ''\<close>\<close>

fun is_extraction :: "tts_effect \<Rightarrow> bool" where
  "is_extraction PdfGetDocument = True"
| "is_extraction (PdfGetPage i) = True"
| "is_extraction ExtractRawText = True"
| "is_extraction e = False"

record tts_panel =
  text_state :: string  \<comment> \<open>the state \<^verbatim>\<open>text\<close>\<close>
  audioUrl :: "string option"
  isLoading :: bool
  tts_error :: "string option"  \<comment> \<open>the state \<^verbatim>\<open>error\<close>\<close>
  tts_log :: "tts_effect list"

definition initial_tts_panel :: tts_panel where
  "initial_tts_panel =
     \<lparr>text_state = [], audioUrl = None, isLoading = False, tts_error = None, tts_log = []\<rparr>"

definition tts_emit :: "tts_effect list \<Rightarrow> tts_panel \<Rightarrow> tts_panel" where
  "tts_emit es s = s\<lparr>tts_log := tts_log s @ es\<rparr>"

definition UNSUPPORTED_TYPE :: string where
  "UNSUPPORTED_TYPE = ''Tipo de archivo no soportado. Por favor, suba un PDF o DOCX.''"

definition PDF_ERROR :: string where
  "PDF_ERROR = ''No se pudo procesar el archivo PDF.''"

definition DOCX_ERROR :: string where
  "DOCX_ERROR = ''No se pudo procesar el archivo DOCX.''"

definition NO_AUDIO_DATA :: string where
  "NO_AUDIO_DATA = ''No audio data received from API.''"

subsection \<open>Document upload: handleFileChange and the reader callbacks\<close>

definition endsWith :: "string \<Rightarrow> string \<Rightarrow> bool" where
  "endsWith s suf = (length suf \<le> length s \<and> drop (length s - length suf) s = suf)"

text \<open>The \<^verbatim>\<open>catch\<close> of the outer \<^verbatim>\<open>try\<close>, on an exception with message \<open>m\<close>.\<close>

definition file_catch :: "string \<Rightarrow> tts_panel \<Rightarrow> tts_panel" where
  "file_catch m s =
     s\<lparr>tts_error := Some (''Error al procesar el archivo: '' @ m), text_state := [],
       isLoading := False\<rparr>"

definition start_reader :: "reader_kind \<Rightarrow> string option \<Rightarrow> tts_panel \<Rightarrow> reader_kind option \<times> tts_panel" where
  "start_reader k thrown s =
     (case thrown of
        None \<Rightarrow> (Some k, tts_emit [ReadAsArrayBuffer k] s)
      | Some m \<Rightarrow> (None, file_catch m s))"

text \<open>
  The synchronous part of \<^verbatim>\<open>handleFileChange\<close>. \<open>thrown\<close> is the message of the
  exception that creating or starting the \<^verbatim>\<open>FileReader\<close> throws, if it does. The result
  names the reader whose \<^verbatim>\<open>onload\<close> is now pending, if one was started.
\<close>

definition handleFileChange ::
  "js_file option \<Rightarrow> string option \<Rightarrow> tts_panel \<Rightarrow> reader_kind option \<times> tts_panel" where
  "handleFileChange fileopt thrown s =
     (case fileopt of
        None \<Rightarrow> (None, s)
      | Some f \<Rightarrow>
          (let s1 = (tts_emit [SetAudioUrl None] s)
                      \<lparr>tts_error := None, isLoading := True, audioUrl := None,
                       text_state := ''Procesando archivo: '' @ file_name f @ ''...''\<rparr>;
               (pending, s2) =
                 (if file_type f = ''application/pdf'' then start_reader PdfReader thrown s1
                  else if endsWith (file_name f) ''.docx'' then start_reader DocxReader thrown s1
                  else (None, s1\<lparr>tts_error := Some UNSUPPORTED_TYPE, text_state := [],
                                  isLoading := False\<rparr>))
           in (pending, tts_emit [ResetFileInput] s2)))"

text \<open>\<^verbatim>\<open>items.map(item => item.str).join(' ')\<close>\<close>

fun join :: "string \<Rightarrow> string list \<Rightarrow> string" where
  "join sep [] = []"
| "join sep [x] = x"
| "join sep (x # y # ys) = x @ sep @ join sep (y # ys)"

text \<open>
  The loop over the pages of a PDF, from page \<open>i\<close> on. A page is the list of its text
  items, or \<open>None\<close> when reading it throws; the result is the calls made and the content,
  or \<open>None\<close> when a page threw.
\<close>

fun read_pages :: "nat \<Rightarrow> string \<Rightarrow> string list option list \<Rightarrow> tts_effect list \<times> string option" where
  "read_pages i content [] = ([], Some content)"
| "read_pages i content (None # ps) = ([PdfGetPage i], None)"
| "read_pages i content (Some items # ps) =
     (let (es, r) = read_pages (Suc i) (content @ join '' '' items) ps
      in (PdfGetPage i # es, r))"

text \<open>\<^verbatim>\<open>reader.onload\<close> of the PDF branch; the document is \<open>None\<close> when
  \<^verbatim>\<open>getDocument\<close> rejects.\<close>

definition pdf_onload :: "string list option list option \<Rightarrow> tts_panel \<Rightarrow> tts_panel" where
  "pdf_onload doc s =
     (let s1 = tts_emit [PdfGetDocument] s;
          failed = (\<lambda>s'. s'\<lparr>tts_error := Some PDF_ERROR, text_state := [], isLoading := False\<rparr>)
      in case doc of
           None \<Rightarrow> failed s1
         | Some pages \<Rightarrow>
             (let (es, r) = read_pages 1 [] pages;
                  s2 = tts_emit es s1
              in case r of
                   None \<Rightarrow> failed s2
                 | Some content \<Rightarrow> s2\<lparr>text_state := content, isLoading := False\<rparr>))"

text \<open>\<^verbatim>\<open>reader.onload\<close> of the DOCX branch; the result is \<open>None\<close> when
  \<^verbatim>\<open>extractRawText\<close> rejects, and \<^verbatim>\<open>result.value\<close> otherwise.\<close>

definition docx_onload :: "string option \<Rightarrow> tts_panel \<Rightarrow> tts_panel" where
  "docx_onload result s =
     (let s1 = tts_emit [ExtractRawText] s
      in case result of
           None \<Rightarrow> s1\<lparr>tts_error := Some DOCX_ERROR, text_state := [], isLoading := False\<rparr>
         | Some v \<Rightarrow> s1\<lparr>text_state := v, isLoading := False\<rparr>)"

subsection \<open>Synthesis: generateSpeechFromText and handleGenerateAudio\<close>

text \<open>What \<^verbatim>\<open>generateContent\<close> does: it rejects with a message, or it answers, and
  \<^verbatim>\<open>response.candidates?.[0]?.content?.parts?.[0]?.inlineData?.data\<close> is then present or
  not.\<close>

datatype tts_response = RequestFailed string | Responded "string option"

text \<open>The result is the calls made and either the message of the error thrown (\<open>Inl\<close>)
  or the base64 audio (\<open>Inr\<close>). An empty string is falsy, as an absent one.\<close>

definition generateSpeechFromText ::
  "env \<Rightarrow> string \<Rightarrow> tts_response \<Rightarrow> tts_effect list \<times> (string + string)" where
  "generateSpeechFromText e txt response =
     (if no_API_KEY e then ([], Inl API_KEY_NOT_SET)
      else ([GenerateContent txt],
            (case response of
               RequestFailed m \<Rightarrow> Inl m
             | Responded base64Audio \<Rightarrow>
                 (case base64Audio of
                    None \<Rightarrow> Inl NO_AUDIO_DATA
                  | Some b \<Rightarrow> if b = [] then Inl NO_AUDIO_DATA else Inr b))))"

text \<open>
  \<^verbatim>\<open>text.trim()\<close>. A string is taken as the UTF-8 bytes of the JavaScript string. The
  white space and the line terminators of ECMAScript, each as its bytes: U+0009 to
  U+000D, U+0020, U+00A0, U+1680, U+2000 to U+200A, U+2028, U+2029, U+202F, U+205F,
  U+3000 and U+FEFF.
\<close>

definition white_space :: "string list" where
  "white_space =
     [[CHR 0x09], [CHR 0x0A], [CHR 0x0B], [CHR 0x0C], [CHR 0x0D], [CHR 0x20],
      [CHR 0xC2, CHR 0xA0],
      [CHR 0xE1, CHR 0x9A, CHR 0x80],
      [CHR 0xE2, CHR 0x80, CHR 0x80], [CHR 0xE2, CHR 0x80, CHR 0x81],
      [CHR 0xE2, CHR 0x80, CHR 0x82], [CHR 0xE2, CHR 0x80, CHR 0x83],
      [CHR 0xE2, CHR 0x80, CHR 0x84], [CHR 0xE2, CHR 0x80, CHR 0x85],
      [CHR 0xE2, CHR 0x80, CHR 0x86], [CHR 0xE2, CHR 0x80, CHR 0x87],
      [CHR 0xE2, CHR 0x80, CHR 0x88], [CHR 0xE2, CHR 0x80, CHR 0x89],
      [CHR 0xE2, CHR 0x80, CHR 0x8A],
      [CHR 0xE2, CHR 0x80, CHR 0xA8], [CHR 0xE2, CHR 0x80, CHR 0xA9],
      [CHR 0xE2, CHR 0x80, CHR 0xAF],
      [CHR 0xE2, CHR 0x81, CHR 0x9F],
      [CHR 0xE3, CHR 0x80, CHR 0x80],
      [CHR 0xEF, CHR 0xBB, CHR 0xBF]]"

text \<open>The number of bytes of the white space a string starts with, or ends with; 0 if
  there is none.\<close>

definition space_prefix :: "string \<Rightarrow> nat" where
  "space_prefix s =
     (if take 1 s \<in> set white_space then 1
      else if take 2 s \<in> set white_space then 2
      else if take 3 s \<in> set white_space then 3
      else 0)"

definition space_suffix :: "string \<Rightarrow> nat" where
  "space_suffix s =
     (if drop (length s - 1) s \<in> set white_space then 1
      else if drop (length s - 2) s \<in> set white_space then 2
      else if drop (length s - 3) s \<in> set white_space then 3
      else 0)"

function trimStart :: "string \<Rightarrow> string" where
  "trimStart s = (if space_prefix s = 0 then s else trimStart (drop (space_prefix s) s))"
  by pat_completeness auto
termination
proof (relation "measure length")
  show "wf (measure length)"
    by simp
next
  fix s :: string
  assume "space_prefix s \<noteq> 0"
  moreover have "space_prefix [] = 0"
    by (simp add: space_prefix_def white_space_def)
  ultimately have "s \<noteq> []"
    by auto
  with \<open>space_prefix s \<noteq> 0\<close> show "(drop (space_prefix s) s, s) \<in> measure length"
    by simp
qed

function trimEnd :: "string \<Rightarrow> string" where
  "trimEnd s = (if space_suffix s = 0 then s else trimEnd (take (length s - space_suffix s) s))"
  by pat_completeness auto
termination
proof (relation "measure length")
  show "wf (measure length)"
    by simp
next
  fix s :: string
  assume "space_suffix s \<noteq> 0"
  moreover have "space_suffix [] = 0"
    by (simp add: space_suffix_def white_space_def)
  ultimately have "s \<noteq> []"
    by auto
  with \<open>space_suffix s \<noteq> 0\<close> show "(take (length s - space_suffix s) s, s) \<in> measure length"
    by simp
qed

declare trimStart.simps [simp del] trimEnd.simps [simp del]

definition trim :: "string \<Rightarrow> string" where
  "trim s = trimEnd (trimStart s)"

text \<open>
  \<^verbatim>\<open>handleGenerateAudio\<close>. The functions \<^verbatim>\<open>decode\<close> and \<^verbatim>\<open>pcmToWavBlob\<close> of
  utils/audioUtils and \<^verbatim>\<open>URL.createObjectURL\<close> are the parameter \<open>playable\<close>: from the
  base64 audio, the message of the exception thrown (\<open>Inl\<close>) or the URL (\<open>Inr\<close>).
\<close>

definition generate_catch :: "string \<Rightarrow> tts_panel \<Rightarrow> tts_panel" where
  "generate_catch m s = s\<lparr>tts_error := Some (''Fallo al generar audio: '' @ m), isLoading := False\<rparr>"

definition handleGenerateAudio ::
  "env \<Rightarrow> tts_response \<Rightarrow> (string \<Rightarrow> string + string) \<Rightarrow> tts_panel \<Rightarrow> tts_panel" where
  "handleGenerateAudio e response playable s =
     (if trim (text_state s) = [] \<or> isLoading s then s
      else
        (let s1 = (tts_emit [SetAudioUrl None] s)
                    \<lparr>tts_error := None, isLoading := True, audioUrl := None\<rparr>;
             (es, r) = generateSpeechFromText e (text_state s) response;
             s2 = tts_emit es s1
         in case r of
              Inl m \<Rightarrow> generate_catch m s2
            | Inr base64Audio \<Rightarrow>
                (case playable base64Audio of
                   Inl m \<Rightarrow> generate_catch m s2
                 | Inr url \<Rightarrow>
                     (tts_emit [SetAudioUrl (Some url)] s2)
                       \<lparr>audioUrl := Some url, isLoading := False\<rparr>)))"


section \<open>Properties of the transcription panel\<close>

subsection \<open>The transcript accumulator\<close>

lemma deliver_append: "deliver (ms @ ns) cs = deliver ns (deliver ms cs)"
  by (induction ms arbitrary: cs) auto

lemma onmessage_PartialText:
  "onmessage (message_of (PartialText t)) (cur, s) = (cur @ t, s\<lparr>transcription := cur @ t\<rparr>)"
  by (simp add: onmessage_def js_append_def Let_def)

lemma onmessage_TurnComplete:
  "onmessage (message_of TurnComplete) (cur, s) = (cur @ '' '', s)"
  by (simp add: onmessage_def)

lemma message_of_no_throw: "\<not> onmessage_throws (message_of ev)"
  by (cases ev) (simp_all add: onmessage_throws_def)

lemma onmessage_event_fst:
  "fst (onmessage (message_of ev) (cur, s)) = cur @ spec_delta ev"
  by (cases ev) (simp_all add: onmessage_PartialText onmessage_TurnComplete del: message_of.simps)

lemma spec_fold_concat: "spec_fold t evs = t @ concat (map spec_delta evs)"
  by (induction evs arbitrary: t) (simp_all add: spec_fold_def)

lemma deliver_events_fst:
  "fst (deliver (map message_of evs) (cur, s)) = spec_fold cur evs"
proof (induction evs arbitrary: cur s)
  case Nil
  then show ?case by (simp add: spec_fold_def)
next
  case (Cons ev evs)
  obtain cur' s' where step: "onmessage (message_of ev) (cur, s) = (cur', s')"
    by (cases "onmessage (message_of ev) (cur, s)")
  then have "cur' = cur @ spec_delta ev"
    using onmessage_event_fst [of ev cur s] by simp
  then show ?case
    using Cons.IH [of cur' s'] step by (simp add: spec_fold_def del: message_of.simps)
qed

lemma deliver_turns_shown:
  "list_all is_turn_complete evs \<Longrightarrow>
     snd (deliver (map message_of evs) (cur, s)) = s"
proof (induction evs arbitrary: cur)
  case Nil
  then show ?case by simp
next
  case (Cons ev evs)
  then show ?case
    by (cases ev) (simp_all add: onmessage_TurnComplete del: message_of.simps)
qed

lemma deliver_shown_snoc_partial:
  "transcription (snd (deliver (map message_of (evs @ [PartialText t])) (cur, s))) =
     spec_fold cur (evs @ [PartialText t])"
proof -
  obtain cur' s' where d: "deliver (map message_of evs) (cur, s) = (cur', s')"
    by (cases "deliver (map message_of evs) (cur, s)")
  then have "cur' = spec_fold cur evs"
    using deliver_events_fst [of evs cur s] by simp
  then show ?thesis
    using d by (simp add: deliver_append onmessage_PartialText spec_fold_def del: message_of.simps)
qed

lemma split_trailing:
  "\<exists>tl. evs = drop_trailing_turns evs @ tl \<and> list_all is_turn_complete tl"
proof -
  have "rev evs = takeWhile is_turn_complete (rev evs) @ dropWhile is_turn_complete (rev evs)"
    by simp
  then have "evs = rev (dropWhile is_turn_complete (rev evs)) @ rev (takeWhile is_turn_complete (rev evs))"
    by (metis rev_append rev_rev_ident)
  moreover have "list_all is_turn_complete (rev (takeWhile is_turn_complete (rev evs)))"
    by (simp add: list_all_iff) (meson set_takeWhileD)
  ultimately show ?thesis unfolding drop_trailing_turns_def by blast
qed

lemma drop_trailing_cases:
  "drop_trailing_turns evs = [] \<or> (\<exists>ys t. drop_trailing_turns evs = ys @ [PartialText t])"
proof (cases "dropWhile is_turn_complete (rev evs)")
  case Nil
  then show ?thesis by (simp add: drop_trailing_turns_def)
next
  case (Cons e es)
  then have "\<not> is_turn_complete e"
    by (metis hd_dropWhile list.sel(1) list.distinct(1))
  then obtain t where "e = PartialText t" by (cases e) auto
  with Cons show ?thesis by (simp add: drop_trailing_turns_def)
qed

lemma deliver_shown:
  "transcription (snd (deliver (map message_of evs) ([], s\<lparr>transcription := []\<rparr>))) =
     spec_fold [] (drop_trailing_turns evs)"
proof -
  let ?s0 = "s\<lparr>transcription := []\<rparr>"
  let ?d = "drop_trailing_turns evs"
  obtain tl where tl: "evs = ?d @ tl" "list_all is_turn_complete tl"
    using split_trailing by blast
  obtain cur' s' where d: "deliver (map message_of ?d) ([], ?s0) = (cur', s')"
    by (cases "deliver (map message_of ?d) ([], ?s0)")
  have "deliver (map message_of evs) ([], ?s0) = deliver (map message_of tl) (cur', s')"
    by (subst tl(1)) (simp add: deliver_append d)
  then have a: "snd (deliver (map message_of evs) ([], ?s0)) = snd (deliver (map message_of ?d) ([], ?s0))"
    using deliver_turns_shown [OF tl(2), of cur' s'] d by simp
  from drop_trailing_cases [of evs] show ?thesis
  proof
    assume "?d = []"
    then show ?thesis using a by (simp add: spec_fold_def)
  next
    assume "\<exists>ys t. ?d = ys @ [PartialText t]"
    then obtain ys t where "?d = ys @ [PartialText t]" by blast
    then show ?thesis using a deliver_shown_snoc_partial [of ys t "[]" ?s0]
      by simp
  qed
qed

lemma drop_trailing_turns_snoc_turn:
  "drop_trailing_turns (evs @ [TurnComplete]) = drop_trailing_turns evs"
  by (simp add: drop_trailing_turns_def)

lemma drop_trailing_turns_snoc_partial:
  "drop_trailing_turns (evs @ [PartialText t]) = evs @ [PartialText t]"
  by (simp add: drop_trailing_turns_def)

text \<open>
  Claim C1. The variable \<^verbatim>\<open>currentTranscription\<close> is a fold over the events in the order
  of delivery: a partial text appends its text, a turn boundary appends one space. Any
  sequence of events leaves the concatenation of what each appends, after what was there
  before; from the empty transcript, the partial texts \<open>a\<close>, \<open>b\<close> give \<open>ab\<close>, and
  \<open>a\<close>, turn boundary, \<open>b\<close> give \<open>a b\<close>, in the variable and on the panel.
\<close>

theorem C1_transcript_fold:
  "fst (onmessage (message_of (PartialText t)) (cur, s)) = cur @ t
   \<and> fst (onmessage (message_of TurnComplete) (cur, s)) = cur @ '' ''
   \<and> fst (deliver (map message_of evs) (cur, s)) = spec_fold cur evs
   \<and> fst (deliver (map message_of evs) (cur, s)) = cur @ concat (map spec_delta evs)
   \<and> fst (deliver (map message_of [PartialText ''a'', PartialText ''b'']) ([], s)) = ''ab''
   \<and> fst (deliver (map message_of [PartialText ''a'', TurnComplete, PartialText ''b'']) ([], s))
       = ''a b''
   \<and> transcription (snd (deliver (map message_of [PartialText ''a'', PartialText ''b'']) ([], s)))
       = ''ab''
   \<and> transcription (snd (deliver
         (map message_of [PartialText ''a'', TurnComplete, PartialText ''b'']) ([], s)))
       = ''a b''"
proof -
  have "fst (deliver (map message_of [PartialText ''a'', PartialText ''b'']) ([], s)) = ''ab''"
    by (simp only: deliver_events_fst spec_fold_concat) simp
  moreover
  have "fst (deliver (map message_of [PartialText ''a'', TurnComplete, PartialText ''b'']) ([], s))
      = ''a b''"
    by (simp only: deliver_events_fst spec_fold_concat) simp
  moreover
  have "fst (deliver (map message_of evs) (cur, s)) = cur @ concat (map spec_delta evs)"
    by (simp only: deliver_events_fst spec_fold_concat)
  moreover
  have "transcription (snd (deliver (map message_of [PartialText ''a'', PartialText ''b''])
      ([], s))) = ''ab''"
    using deliver_shown_snoc_partial [of "[PartialText ''a'']" "''b''" "[]" s]
    by (simp add: spec_fold_def)
  moreover
  have "transcription (snd (deliver
      (map message_of [PartialText ''a'', TurnComplete, PartialText ''b'']) ([], s))) = ''a b''"
    using deliver_shown_snoc_partial [of "[PartialText ''a'', TurnComplete]" "''b''" "[]" s]
    by (simp add: spec_fold_def)
  ultimately show ?thesis
    by (simp only: onmessage_PartialText onmessage_TurnComplete deliver_events_fst fst_conv simp_thms)
qed

text \<open>
  Claim C10 as stated fails when the sequence ends in more than one turn boundary: after
  the partial text \<open>a\<close> and two turn boundaries the panel displays \<open>a\<close>, and the fold of
  the sequence without its last separator is \<open>a\<close> followed by a space.
\<close>

theorem C10_displayed_counterexample:
  "transcription (snd (deliver (map message_of [PartialText ''a'', TurnComplete, TurnComplete])
       ([], (initial_panel :: nat panel)))) = ''a''
   \<and> spec_fold [] (butlast [PartialText ''a'', TurnComplete, TurnComplete]) = ''a ''
   \<and> transcription (snd (deliver (map message_of [PartialText ''a'', TurnComplete, TurnComplete])
       ([], (initial_panel :: nat panel))))
       \<noteq> spec_fold [] (butlast [PartialText ''a'', TurnComplete, TurnComplete])"
  by (simp add: onmessage_def js_append_def Let_def spec_fold_def initial_panel_def)

text \<open>
  Claim C10, amended. A turn boundary appends the space to \<^verbatim>\<open>currentTranscription\<close> only
  and leaves the panel as it is. From an empty transcript, the displayed transcription
  is the fold of the sequence with all its trailing turn boundaries dropped; so after a
  partial text and one turn boundary it is the fold without the trailing separator, and
  once a partial text follows a turn boundary the separator is displayed with it.
\<close>

theorem C10_displayed_lags:
  "transcription (snd (deliver (map message_of evs) ([], s\<lparr>transcription := []\<rparr>))) =
     spec_fold [] (drop_trailing_turns evs)
   \<and> transcription (snd (deliver (map message_of (evs @ [PartialText t, TurnComplete]))
        ([], s\<lparr>transcription := []\<rparr>))) = spec_fold [] (evs @ [PartialText t])
   \<and> snd (deliver (map message_of (evs @ [TurnComplete])) (cur, s)) =
       snd (deliver (map message_of evs) (cur, s))
   \<and> fst (deliver (map message_of (evs @ [TurnComplete])) (cur, s)) =
       fst (deliver (map message_of evs) (cur, s)) @ '' ''
   \<and> transcription (snd (deliver (map message_of (evs @ [TurnComplete, PartialText t]))
        ([], s\<lparr>transcription := []\<rparr>))) = spec_fold [] (evs @ [TurnComplete, PartialText t])"
proof -
  have a: "transcription (snd (deliver (map message_of (evs @ [PartialText t, TurnComplete]))
        ([], s\<lparr>transcription := []\<rparr>))) = spec_fold [] (evs @ [PartialText t])"
    using deliver_shown [of "(evs @ [PartialText t]) @ [TurnComplete]" s]
    by (simp only: drop_trailing_turns_snoc_turn drop_trailing_turns_snoc_partial) simp
  have b: "transcription (snd (deliver (map message_of (evs @ [TurnComplete, PartialText t]))
        ([], s\<lparr>transcription := []\<rparr>))) = spec_fold [] (evs @ [TurnComplete, PartialText t])"
    using deliver_shown [of "(evs @ [TurnComplete]) @ [PartialText t]" s]
    by (simp only: drop_trailing_turns_snoc_partial) simp
  obtain cur' s' where d: "deliver (map message_of evs) (cur, s) = (cur', s')"
    by (cases "deliver (map message_of evs) (cur, s)")
  have c: "deliver (map message_of (evs @ [TurnComplete])) (cur, s) = (cur' @ '' '', s')"
    by (simp add: deliver_append d onmessage_TurnComplete del: message_of.simps)
  show ?thesis
    using a b c d deliver_shown [of evs s] by simp
qed


subsection \<open>Missing credential, session errors, stopping\<close>

lemma startSession_no_key:
  "no_API_KEY e \<Longrightarrow> startSession e s = (None, s\<lparr>error := Some API_KEY_NOT_SET\<rparr>)"
  by (simp add: startSession_def)

lemma startSession_key:
  "\<not> no_API_KEY e \<Longrightarrow>
     startSession e s =
       (Some (fresh_session (effects s)),
        s\<lparr>sessionPromiseRef := Some (fresh_session (effects s)),
          effects := effects s @ [Connect (fresh_session (effects s))]\<rparr>)"
  by (simp add: startSession_def emit_def Let_def)

lemma startRecording_no_key:
  "no_API_KEY e \<Longrightarrow> \<not> isRecording s \<Longrightarrow>
     startRecording e outcome s = s\<lparr>transcription := [], error := Some API_KEY_NOT_SET\<rparr>"
  by (simp add: startRecording_def startSession_no_key)

lemma handleFileUpload_no_key:
  "no_API_KEY e \<Longrightarrow>
     handleFileUpload e (Some f) audio s =
       s\<lparr>transcription := [], error := Some API_KEY_NOT_SET, isProcessing := False\<rparr>"
  by (simp add: handleFileUpload_def startSession_no_key)

text \<open>
  Claim C3. Without a credential, a recording started from the idle panel (the guard
  \<^verbatim>\<open>if (isRecording) return\<close> lets it through) and a file upload with a file both end
  at once with the configuration error displayed, the recording and the processing flag
  false, and a log that has not grown: \<^verbatim>\<open>ai.live.connect\<close> was not called, whatever the
  microphone or the decoder would have done.
\<close>

theorem C3_missing_credential:
  assumes "no_API_KEY e" and "\<not> isRecording s" and "\<not> isProcessing s"
  shows "error (startRecording e outcome s) = Some API_KEY_NOT_SET
    \<and> \<not> isRecording (startRecording e outcome s)
    \<and> \<not> isProcessing (startRecording e outcome s)
    \<and> effects (startRecording e outcome s) = effects s
    \<and> sessionPromiseRef (startRecording e outcome s) = sessionPromiseRef s
    \<and> error (handleFileUpload e (Some f) audio s) = Some API_KEY_NOT_SET
    \<and> \<not> isRecording (handleFileUpload e (Some f) audio s)
    \<and> \<not> isProcessing (handleFileUpload e (Some f) audio s)
    \<and> effects (handleFileUpload e (Some f) audio s) = effects s
    \<and> sessionPromiseRef (handleFileUpload e (Some f) audio s) = sessionPromiseRef s"
  using assms by (simp add: startRecording_no_key handleFileUpload_no_key)

theorem C3_missing_credential_witness:
  "no_API_KEY \<lparr>API_KEY = None\<rparr>
   \<and> \<not> isRecording (initial_panel :: nat panel)
   \<and> \<not> isProcessing (initial_panel :: nat panel)
   \<and> error (startRecording \<lparr>API_KEY = None\<rparr> Capturing (initial_panel :: nat panel))
       = Some API_KEY_NOT_SET
   \<and> connects (effects (startRecording \<lparr>API_KEY = None\<rparr> Capturing (initial_panel :: nat panel))) = []
   \<and> error (handleFileUpload \<lparr>API_KEY = Some []\<rparr>
         (Some \<lparr>file_name = ''hearing.wav'', file_type = ''audio/wav''\<rparr>) (AudioData [1, 2, 3])
         (initial_panel :: nat panel)) = Some API_KEY_NOT_SET
   \<and> connects (effects (handleFileUpload \<lparr>API_KEY = Some []\<rparr>
         (Some \<lparr>file_name = ''hearing.wav'', file_type = ''audio/wav''\<rparr>) (AudioData [1, 2, 3])
         (initial_panel :: nat panel))) = []"
proof -
  have k1: "no_API_KEY \<lparr>API_KEY = None\<rparr>" and k2: "no_API_KEY \<lparr>API_KEY = Some []\<rparr>"
    by (simp_all add: no_API_KEY_def)
  have i: "\<not> isRecording (initial_panel :: nat panel)" "\<not> isProcessing (initial_panel :: nat panel)"
    by (simp_all add: initial_panel_def)
  have e: "effects (initial_panel :: nat panel) = []"
    by (simp add: initial_panel_def)
  show ?thesis
    using k1 i e
      C3_missing_credential [OF k1 i, of Capturing undefined undefined]
      C3_missing_credential [OF k2 i, of undefined
        "\<lparr>file_name = ''hearing.wav'', file_type = ''audio/wav''\<rparr>" "AudioData [1, 2, 3]"]
    by simp
qed

lemma stopSession_cases:
  "stopSession s =
     s\<lparr>sessionPromiseRef := None,
       effects := effects s @ (case sessionPromiseRef s of None \<Rightarrow> [] | Some sid \<Rightarrow> [SessionClose sid])\<rparr>"
  by (cases "sessionPromiseRef s") (simp_all add: stopSession_def emit_def)

lemma stopRecording_eq:
  "stopRecording s =
     s\<lparr>isRecording := False, sessionPromiseRef := None,
       mediaStreamRef := None, scriptProcessorRef := None,
       mediaStreamSourceRef := None, audioContextRef := None,
       effects := effects s
         @ (case sessionPromiseRef s of None \<Rightarrow> [] | Some sid \<Rightarrow> [SessionClose sid])
         @ release_effects s\<rparr>"
  by (simp add: stopRecording_def stopSession_cases emit_def release_effects_def Let_def)

text \<open>
  Claim C6. \<^verbatim>\<open>stopRecording\<close> twice is \<^verbatim>\<open>stopRecording\<close> once, log included: the first
  call requests the close of the session in the ref, if there is one, releases what the
  refs hold and clears every ref, so the second call adds nothing to the log. The error
  state is not touched.
\<close>

theorem C6_stop_idempotent:
  "stopRecording (stopRecording s) = stopRecording s
   \<and> error (stopRecording s) = error s
   \<and> effects (stopRecording s) =
       effects s
       @ (case sessionPromiseRef s of None \<Rightarrow> [] | Some sid \<Rightarrow> [SessionClose sid])
       @ release_effects s
   \<and> effects (stopRecording (stopRecording s)) = effects (stopRecording s)
   \<and> sessionPromiseRef (stopRecording s) = None
   \<and> release_effects (stopRecording s) = []"
proof -
  have r: "release_effects (stopRecording s) = []"
    by (simp add: stopRecording_eq release_effects_def)
  have "stopRecording (stopRecording s) = stopRecording s"
    by (subst stopRecording_eq [of "stopRecording s"]) (simp add: r, simp add: stopRecording_eq)
  then show ?thesis
    using r by (simp add: stopRecording_eq)
qed

subsection \<open>Upload with a file that does not decode\<close>


lemma connects_append: "connects (xs @ ys) = connects xs @ connects ys"
  by (induction xs rule: connects.induct) simp_all






subsection \<open>Sessions over a run of recordings\<close>

lemma open_sessions_snoc:
  "open_sessions (xs @ [x]) = session_step (open_sessions xs) x"
  by (simp add: open_sessions_def)

lemma never_concurrent_iff:
  "never_concurrent effs \<longleftrightarrow> (\<forall>n \<le> length effs. length (open_sessions (take n effs)) \<le> 1)"
  by (auto simp: never_concurrent_def list_all_iff)

lemma never_concurrent_snoc:
  "never_concurrent (xs @ [x]) \<longleftrightarrow>
     never_concurrent xs \<and> length (open_sessions (xs @ [x])) \<le> 1"
proof -
  have "(\<forall>n \<le> Suc (length xs). length (open_sessions (take n (xs @ [x]))) \<le> 1) \<longleftrightarrow>
        (\<forall>n \<le> length xs. length (open_sessions (take n (xs @ [x]))) \<le> 1) \<and>
        length (open_sessions (take (Suc (length xs)) (xs @ [x]))) \<le> 1"
    by (metis le_Suc_eq)
  then show ?thesis
    by (simp add: never_concurrent_iff)
qed

lemma never_concurrent_last:
  "never_concurrent effs \<Longrightarrow> length (open_sessions effs) \<le> 1"
  by (auto simp: never_concurrent_iff)

text \<open>The invariant of the runs of \<^verbatim>\<open>startRecording\<close>: the open sessions are the one in
  the ref, and a session is in the ref only while recording.\<close>

lemma startRecording_effects:
  "effects (startRecording e c s) =
     (if isRecording s \<or> no_API_KEY e then effects s
      else if c = Capturing then effects s @ [Connect (fresh_session (effects s)), GetUserMedia]
      else effects s @ [Connect (fresh_session (effects s)), GetUserMedia,
                        SessionClose (fresh_session (effects s))])"
  by (cases c) (simp_all add: startRecording_def startSession_def try_capture_def stopSession_def
      emit_def Let_def)

lemma startRecording_ref:
  "sessionPromiseRef (startRecording e c s) =
     (if isRecording s \<or> no_API_KEY e then sessionPromiseRef s
      else if c = Capturing then Some (fresh_session (effects s))
      else None)"
  by (cases c) (simp_all add: startRecording_def startSession_def try_capture_def stopSession_def
      emit_def Let_def)

lemma startRecording_isRecording:
  "isRecording (startRecording e c s) = (isRecording s \<or> (\<not> no_API_KEY e \<and> c = Capturing))"
  by (cases c) (simp_all add: startRecording_def startSession_def try_capture_def stopSession_def
      emit_def Let_def)

lemma snoc2: "xs @ [a, b] = (xs @ [a]) @ [b]"
  by simp

lemma snoc3: "xs @ [a, b, c] = ((xs @ [a]) @ [b]) @ [c]"
  by simp

lemma session_inv_startRecording:
  assumes nc: "never_concurrent (effects s)"
    and opn: "open_sessions (effects s) = (case sessionPromiseRef s of None \<Rightarrow> [] | Some sid \<Rightarrow> [sid])"
    and rec: "sessionPromiseRef s \<noteq> None \<longrightarrow> isRecording s"
  shows "never_concurrent (effects (startRecording e c s))
    \<and> open_sessions (effects (startRecording e c s)) =
        (case sessionPromiseRef (startRecording e c s) of None \<Rightarrow> [] | Some sid \<Rightarrow> [sid])
    \<and> (sessionPromiseRef (startRecording e c s) \<noteq> None \<longrightarrow> isRecording (startRecording e c s))"
proof (cases "isRecording s \<or> no_API_KEY e")
  case True
  then show ?thesis using assms
    by (simp add: startRecording_effects startRecording_ref startRecording_isRecording)
next
  case False
  then have "sessionPromiseRef s = None" using rec by auto
  then have emp: "open_sessions (effects s) = []" using opn by simp
  show ?thesis
  proof (cases "c = Capturing")
    case True
    then show ?thesis using False emp nc
      by (simp add: startRecording_effects startRecording_ref startRecording_isRecording
          snoc2 never_concurrent_snoc open_sessions_snoc del: append_assoc append.simps)
  next
    case c: False
    then show ?thesis using False emp nc
      by (simp add: startRecording_effects startRecording_ref startRecording_isRecording
          snoc3 never_concurrent_snoc open_sessions_snoc del: append_assoc append.simps)
  qed
qed

lemma session_inv_startRecordings:
  assumes "never_concurrent (effects s)"
    and "open_sessions (effects s) = (case sessionPromiseRef s of None \<Rightarrow> [] | Some sid \<Rightarrow> [sid])"
    and "sessionPromiseRef s \<noteq> None \<longrightarrow> isRecording s"
  shows "never_concurrent (effects (startRecordings e cs s))"
  using assms
proof (induction cs arbitrary: s)
  case Nil
  then show ?case by simp
next
  case (Cons c cs)
  from session_inv_startRecording [OF Cons.prems, of e c]
  show ?case by (simp add: Cons.IH)
qed

lemma startRecording_guard: "isRecording s \<Longrightarrow> startRecording e c s = s"
  by (simp add: startRecording_def)

text \<open>
  Claim C5 as stated fails: a second \<^verbatim>\<open>startRecording\<close> while the first recording is
  active does not close the first session and does not open a second one. It returns at
  its guard, and the log still holds the one connect of the first start and no close.
\<close>

theorem C5_second_start_counterexample:
  "isRecording (startRecording \<lparr>API_KEY = Some ''key''\<rparr> Capturing (initial_panel :: nat panel))
   \<and> effects (startRecording \<lparr>API_KEY = Some ''key''\<rparr> Capturing
        (startRecording \<lparr>API_KEY = Some ''key''\<rparr> Capturing (initial_panel :: nat panel)))
       = [Connect 0, GetUserMedia]
   \<and> SessionClose 0 \<notin> set (effects (startRecording \<lparr>API_KEY = Some ''key''\<rparr> Capturing
        (startRecording \<lparr>API_KEY = Some ''key''\<rparr> Capturing (initial_panel :: nat panel))))
   \<and> connects (effects (startRecording \<lparr>API_KEY = Some ''key''\<rparr> Capturing
        (startRecording \<lparr>API_KEY = Some ''key''\<rparr> Capturing (initial_panel :: nat panel)))) = [0]"
  by (simp add: startRecording_effects startRecording_isRecording no_API_KEY_def
      initial_panel_def fresh_session_def)

lemma release_effects_quiet:
  "y \<in> set (release_effects s) \<Longrightarrow> session_step opn y = opn"
  by (auto simp: release_effects_def split: if_splits option.splits)

lemma never_concurrent_quiet:
  assumes nc: "never_concurrent xs"
    and quiet: "\<And>y opn. y \<in> set ys \<Longrightarrow> session_step opn y = opn"
  shows "never_concurrent (xs @ ys) \<and> open_sessions (xs @ ys) = open_sessions xs"
  using quiet
proof (induction ys rule: rev_induct)
  case Nil
  then show ?case using nc by simp
next
  case (snoc y ys)
  then have ih: "never_concurrent (xs @ ys)" "open_sessions (xs @ ys) = open_sessions xs"
    by simp_all
  have step: "open_sessions ((xs @ ys) @ [y]) = open_sessions xs"
    using snoc.prems [of y] ih(2) by (simp only: open_sessions_snoc) simp
  have "length (open_sessions xs) \<le> 1"
    using nc by (rule never_concurrent_last)
  then have "never_concurrent ((xs @ ys) @ [y])"
    using ih(1) step by (simp only: never_concurrent_snoc)
  then show ?case
    using step by simp
qed

lemma stopRecording_effects:
  "effects (stopRecording s) =
     (effects s @ (case sessionPromiseRef s of None \<Rightarrow> [] | Some sid \<Rightarrow> [SessionClose sid]))
       @ release_effects s"
  by (simp add: stopRecording_eq)

lemma session_inv_stopRecording:
  assumes nc: "never_concurrent (effects s)"
    and opn: "open_sessions (effects s) = (case sessionPromiseRef s of None \<Rightarrow> [] | Some sid \<Rightarrow> [sid])"
  shows "never_concurrent (effects (stopRecording s))
    \<and> open_sessions (effects (stopRecording s)) = []
    \<and> sessionPromiseRef (stopRecording s) = None"
proof -
  let ?closed = "effects s @ (case sessionPromiseRef s of None \<Rightarrow> [] | Some sid \<Rightarrow> [SessionClose sid])"
  have closed: "never_concurrent ?closed \<and> open_sessions ?closed = []"
  proof (cases "sessionPromiseRef s")
    case None
    then show ?thesis using nc opn by simp
  next
    case (Some sid)
    then show ?thesis using nc opn
      by (simp add: never_concurrent_snoc open_sessions_snoc)
  qed
  then have "never_concurrent (?closed @ release_effects s)
      \<and> open_sessions (?closed @ release_effects s) = open_sessions ?closed"
    by (intro never_concurrent_quiet release_effects_quiet) simp
  then show ?thesis
    using closed by (simp add: stopRecording_effects) (simp add: stopRecording_eq)
qed

lemma session_inv_invoke:
  assumes "never_concurrent (effects s)"
    and "open_sessions (effects s) = (case sessionPromiseRef s of None \<Rightarrow> [] | Some sid \<Rightarrow> [sid])"
    and "sessionPromiseRef s \<noteq> None \<longrightarrow> isRecording s"
  shows "never_concurrent (effects (invoke e call s))
    \<and> open_sessions (effects (invoke e call s)) =
        (case sessionPromiseRef (invoke e call s) of None \<Rightarrow> [] | Some sid \<Rightarrow> [sid])
    \<and> (sessionPromiseRef (invoke e call s) \<noteq> None \<longrightarrow> isRecording (invoke e call s))"
proof (cases call)
  case (StartRecording c)
  then show ?thesis
    using session_inv_startRecording [OF assms, of e c] by simp
next
  case StopRecording
  then show ?thesis
    using session_inv_stopRecording [OF assms(1,2)] by simp
qed

lemma session_inv_invokes:
  assumes "never_concurrent (effects s)"
    and "open_sessions (effects s) = (case sessionPromiseRef s of None \<Rightarrow> [] | Some sid \<Rightarrow> [sid])"
    and "sessionPromiseRef s \<noteq> None \<longrightarrow> isRecording s"
  shows "never_concurrent (effects (invokes e calls s))"
  using assms
proof (induction calls arbitrary: s)
  case Nil
  then show ?case by simp
next
  case (Cons call calls)
  from session_inv_invoke [OF Cons.prems, of e call]
  show ?case by (simp add: Cons.IH)
qed

lemma startRecording_capture_failed:
  assumes "\<not> isRecording s" and "\<not> no_API_KEY e" and "c \<noteq> Capturing"
  shows "effects (startRecording e c s) =
      effects s @ [Connect (fresh_session (effects s)), GetUserMedia,
                   SessionClose (fresh_session (effects s))]"
    and "sessionPromiseRef (startRecording e c s) = None"
  using assms by (simp_all add: startRecording_effects startRecording_ref)

text \<open>
  Claim C5, amended. A start while a recording is active is ignored by the guard on
  \<^verbatim>\<open>isRecording\<close>: the panel and the log stay as they are, so the first session is not
  closed and no second one is opened. A start whose capture fails asks its own session
  to close before it returns. So over every sequence made only of start-recording
  invocations from the initial panel, and over every sequence made only of
  start-recording and stop-recording invocations, with no session error and no upload
  in between, at no point of the log are two sessions open.
\<close>

theorem C5_one_session_at_a_time:
  "(isRecording (s :: 'a panel) \<longrightarrow> startRecording e c s = s)
   \<and> (\<not> isRecording (s' :: 'a panel) \<and> \<not> no_API_KEY e \<and> c' \<noteq> Capturing \<longrightarrow>
        effects (startRecording e c' s') =
          effects s' @ [Connect (fresh_session (effects s')), GetUserMedia,
                        SessionClose (fresh_session (effects s'))]
        \<and> sessionPromiseRef (startRecording e c' s') = None)
   \<and> never_concurrent (effects (startRecordings e cs (initial_panel :: 'a panel)))
   \<and> length (open_sessions (effects (startRecordings e cs (initial_panel :: 'a panel)))) \<le> 1
   \<and> never_concurrent (effects (invokes e calls (initial_panel :: 'a panel)))
   \<and> length (open_sessions (effects (invokes e calls (initial_panel :: 'a panel)))) \<le> 1"
proof -
  have starts: "never_concurrent (effects (startRecordings e cs (initial_panel :: 'a panel)))"
    by (rule session_inv_startRecordings)
       (simp_all add: initial_panel_def never_concurrent_def open_sessions_def)
  have calls: "never_concurrent (effects (invokes e calls (initial_panel :: 'a panel)))"
    by (rule session_inv_invokes)
       (simp_all add: initial_panel_def never_concurrent_def open_sessions_def)
  have guard: "isRecording s \<longrightarrow> startRecording e c s = s"
    by (simp add: startRecording_guard)
  have failed: "\<not> isRecording s' \<and> \<not> no_API_KEY e \<and> c' \<noteq> Capturing \<longrightarrow>
        effects (startRecording e c' s') =
          effects s' @ [Connect (fresh_session (effects s')), GetUserMedia,
                        SessionClose (fresh_session (effects s'))]
        \<and> sessionPromiseRef (startRecording e c' s') = None"
    using startRecording_capture_failed [of s' e c'] by blast
  from guard failed starts never_concurrent_last [OF starts] calls never_concurrent_last [OF calls]
  show ?thesis
    by (intro conjI)
qed

theorem C5_one_session_at_a_time_witness:
  "isRecording (startRecording \<lparr>API_KEY = Some ''key''\<rparr> Capturing (initial_panel :: nat panel))
   \<and> startRecording \<lparr>API_KEY = Some ''key''\<rparr> Capturing
        (startRecording \<lparr>API_KEY = Some ''key''\<rparr> Capturing (initial_panel :: nat panel))
       = startRecording \<lparr>API_KEY = Some ''key''\<rparr> Capturing (initial_panel :: nat panel)
   \<and> \<not> isRecording (initial_panel :: nat panel)
   \<and> \<not> no_API_KEY \<lparr>API_KEY = Some ''key''\<rparr>
   \<and> GetUserMediaFailed \<noteq> Capturing
   \<and> effects (startRecording \<lparr>API_KEY = Some ''key''\<rparr> GetUserMediaFailed
        (initial_panel :: nat panel)) = [Connect 0, GetUserMedia, SessionClose 0]
   \<and> effects (startRecordings \<lparr>API_KEY = Some ''key''\<rparr>
        [GetUserMediaFailed, Capturing, Capturing] (initial_panel :: nat panel))
       = [Connect 0, GetUserMedia, SessionClose 0, Connect 1, GetUserMedia]
   \<and> never_concurrent [Connect 0, GetUserMedia, SessionClose 0, Connect 1, GetUserMedia :: nat effect]
   \<and> effects (invokes \<lparr>API_KEY = Some ''key''\<rparr>
        [StartRecording Capturing, StartRecording Capturing, StopRecording, StartRecording Capturing]
        (initial_panel :: nat panel))
       = [Connect 0, GetUserMedia, SessionClose 0, TracksStop, ProcessorDisconnect,
          SourceDisconnect, ContextClose, Connect 1, GetUserMedia]
   \<and> never_concurrent [Connect 0, GetUserMedia, SessionClose 0, TracksStop, ProcessorDisconnect,
          SourceDisconnect, ContextClose, Connect 1, GetUserMedia :: nat effect]"
proof -
  let ?e = "\<lparr>API_KEY = Some ''key''\<rparr>"
  let ?i = "initial_panel :: nat panel"
  let ?cs = "[GetUserMediaFailed, Capturing, Capturing]"
  let ?calls = "[StartRecording Capturing, StartRecording Capturing, StopRecording,
      StartRecording Capturing]"
  have k: "\<not> no_API_KEY ?e"
    by (simp add: no_API_KEY_def)
  have i: "\<not> isRecording ?i" and ie: "effects ?i = []"
    by (simp_all add: initial_panel_def)
  have r: "isRecording (startRecording ?e Capturing ?i)"
    using k i by (simp add: startRecording_isRecording)
  have starts: "effects (startRecordings ?e ?cs ?i)
      = [Connect 0, GetUserMedia, SessionClose 0, Connect 1, GetUserMedia]"
    using k i ie
    by (simp add: startRecording_effects startRecording_isRecording fresh_session_def)
  have calls: "effects (invokes ?e ?calls ?i)
      = [Connect 0, GetUserMedia, SessionClose 0, TracksStop, ProcessorDisconnect,
         SourceDisconnect, ContextClose, Connect 1, GetUserMedia]"
    by (simp add: startRecording_def startSession_def try_capture_def emit_def Let_def
        stopRecording_def stopSession_def release_effects_def initial_panel_def no_API_KEY_def
        fresh_session_def)
  note inst = C5_one_session_at_a_time [of "startRecording ?e Capturing ?i" ?e Capturing ?i
      GetUserMediaFailed ?cs ?calls]
  have guard: "startRecording ?e Capturing (startRecording ?e Capturing ?i)
      = startRecording ?e Capturing ?i"
    using inst r by blast
  have failed: "effects (startRecording ?e GetUserMediaFailed ?i) = [Connect 0, GetUserMedia, SessionClose 0]"
    using inst k i ie by (simp add: fresh_session_def)
  have nc1: "never_concurrent (effects (startRecordings ?e ?cs ?i))"
    using inst by blast
  have nc2: "never_concurrent (effects (invokes ?e ?calls ?i))"
    using inst by blast
  show ?thesis
    using k i r guard failed starts calls nc1 nc2
    by (simp only: simp_thms) simp
qed

subsection \<open>A session that reports an error\<close>

lemma onerror_writes:
  "onerror s = s\<lparr>error := Some SESSION_ERROR, isRecording := False, isProcessing := False\<rparr>"
  by (simp add: onerror_def)

text \<open>
  Claim C7, against the code. \<^verbatim>\<open>onerror\<close> sets the message and sets both flags to
  false, and makes no call: it does not connect again, but it does not end the operation
  either. It does not call \<^verbatim>\<open>stopSession\<close> and releases nothing. After a recording has
  started and its session reports an error, the session is still in the ref with no
  close requested, the stream and the audio nodes are still in their refs, and the next
  start connects a second session while the first is open. The \<^verbatim>\<open>catch\<close> of
  \<^verbatim>\<open>startRecording\<close>, which sets an error and the flag in the same way, does call
  \<^verbatim>\<open>stopSession\<close>.
\<close>

theorem C7_session_error_not_terminated:
  "error (onerror s) = Some SESSION_ERROR
   \<and> \<not> isRecording (onerror s)
   \<and> \<not> isProcessing (onerror s)
   \<and> effects (onerror s) = effects s
   \<and> sessionPromiseRef (onerror s) = sessionPromiseRef s
   \<and> mediaStreamRef (onerror s) = mediaStreamRef s
   \<and> scriptProcessorRef (onerror s) = scriptProcessorRef s
   \<and> mediaStreamSourceRef (onerror s) = mediaStreamSourceRef s
   \<and> audioContextRef (onerror s) = audioContextRef s
   \<and> sessionPromiseRef (onerror (startRecording \<lparr>API_KEY = Some ''key''\<rparr> Capturing
        (initial_panel :: nat panel))) = Some 0
   \<and> mediaStreamRef (onerror (startRecording \<lparr>API_KEY = Some ''key''\<rparr> Capturing
        (initial_panel :: nat panel))) = Some MediaStream
   \<and> scriptProcessorRef (onerror (startRecording \<lparr>API_KEY = Some ''key''\<rparr> Capturing
        (initial_panel :: nat panel))) = Some ScriptProcessor
   \<and> effects (onerror (startRecording \<lparr>API_KEY = Some ''key''\<rparr> Capturing
        (initial_panel :: nat panel))) = [Connect 0, GetUserMedia]
   \<and> open_sessions (effects (onerror (startRecording \<lparr>API_KEY = Some ''key''\<rparr> Capturing
        (initial_panel :: nat panel)))) = [0]
   \<and> effects (startRecording \<lparr>API_KEY = Some ''key''\<rparr> Capturing
        (onerror (startRecording \<lparr>API_KEY = Some ''key''\<rparr> Capturing (initial_panel :: nat panel))))
       = [Connect 0, GetUserMedia, Connect 1, GetUserMedia]
   \<and> open_sessions (effects (startRecording \<lparr>API_KEY = Some ''key''\<rparr> Capturing
        (onerror (startRecording \<lparr>API_KEY = Some ''key''\<rparr> Capturing (initial_panel :: nat panel)))))
       = [0, 1]
   \<and> effects (startRecording \<lparr>API_KEY = Some ''key''\<rparr> GetUserMediaFailed
        (initial_panel :: nat panel)) = [Connect 0, GetUserMedia, SessionClose 0]"
  by (simp add: onerror_writes startRecording_def startSession_def try_capture_def emit_def
      Let_def stopSession_def initial_panel_def no_API_KEY_def fresh_session_def
      open_sessions_def)


subsection \<open>Chunks of an uploaded file\<close>

lemma chunkSize_pos: "0 < chunkSize"
  by (simp add: chunkSize_def)

lemma sendChunks_step:
  "i < length buf \<Longrightarrow>
     sendChunks sid i buf =
       SendRealtimeInput sid (take chunkSize (drop i buf)) # Delay 50
         # sendChunks sid (i + chunkSize) buf"
  using chunkSize_pos by (subst sendChunks.simps) (simp add: slice_def Let_def)

lemma sendChunks_done: "length buf \<le> i \<Longrightarrow> sendChunks sid i buf = []"
  by (subst sendChunks.simps) simp

lemma chunk_count_0: "chunk_count 0 = 0"
  using chunkSize_pos by (simp add: chunk_count_def)

lemma chunk_count_step: "0 < n \<Longrightarrow> chunk_count n = Suc (chunk_count (n - chunkSize))"
proof (cases "chunkSize \<le> n")
  case True
  have "n + chunkSize - 1 = (n - chunkSize + chunkSize - 1) + chunkSize"
    using True chunkSize_pos by simp
  then have "(n + chunkSize - 1) div chunkSize = Suc ((n - chunkSize + chunkSize - 1) div chunkSize)"
    using chunkSize_pos by (metis div_add_self2 Suc_eq_plus1 less_numeral_extra(3))
  then show ?thesis
    by (simp only: chunk_count_def)
next
  case False
  assume "0 < n"
  then obtain r where r: "n + chunkSize - 1 = r + chunkSize" "r < chunkSize"
    using False by (intro that [of "n - 1"]) simp_all
  have "(r + chunkSize) div chunkSize = Suc (r div chunkSize)"
    using chunkSize_pos by (metis div_add_self2 Suc_eq_plus1 less_numeral_extra(3))
  then have "(n + chunkSize - 1) div chunkSize = 1"
    using r by simp
  then have "chunk_count n = 1"
    by (simp only: chunk_count_def)
  moreover have "chunk_count (n - chunkSize) = 0"
    using False by (simp add: chunk_count_0)
  ultimately show ?thesis by simp
qed

lemma chunk_count_bound: "k < chunk_count n \<Longrightarrow> k * chunkSize < n"
proof (induction k arbitrary: n)
  case 0
  then show ?case using chunk_count_0 by (cases "n = 0") auto
next
  case (Suc k)
  then have pos: "0 < n" using chunk_count_0 by (cases "n = 0") auto
  with Suc.prems have "k < chunk_count (n - chunkSize)" by (simp add: chunk_count_step)
  then have "k * chunkSize < n - chunkSize" by (rule Suc.IH)
  then show ?case by simp
qed

lemma slices_shift:
  "map (\<lambda>k. slice buf (i + k * chunkSize) (i + k * chunkSize + chunkSize)) [0..<Suc m] =
     slice buf i (i + chunkSize) #
     map (\<lambda>k. slice buf (i + chunkSize + k * chunkSize) (i + chunkSize + k * chunkSize + chunkSize))
       [0..<m]"
proof -
  have "[0..<Suc m] = 0 # map Suc [0..<m]"
    by (simp add: upt_conv_Cons map_Suc_upt del: upt_Suc)
  then show ?thesis
    by (simp add: comp_def add.assoc add.left_commute del: upt_Suc)
qed

lemma sent_chunks_sendChunks:
  "sent_chunks (sendChunks sid i buf) =
     map (\<lambda>k. slice buf (i + k * chunkSize) (i + k * chunkSize + chunkSize))
       [0..<chunk_count (length buf - i)]"
proof (induction sid i buf rule: sendChunks.induct)
  case (1 sid i audioData)
  show ?case
  proof (cases "i < length audioData")
    case True
    have cnt: "chunk_count (length audioData - i) =
        Suc (chunk_count (length audioData - (i + chunkSize)))"
      using True chunk_count_step [of "length audioData - i"] by simp
    have "sent_chunks (sendChunks sid i audioData) =
        slice audioData i (i + chunkSize) # sent_chunks (sendChunks sid (i + chunkSize) audioData)"
      using True by (simp add: sendChunks_step slice_def)
    also have "sent_chunks (sendChunks sid (i + chunkSize) audioData) =
        map (\<lambda>k. slice audioData (i + chunkSize + k * chunkSize)
                    (i + chunkSize + k * chunkSize + chunkSize))
          [0..<chunk_count (length audioData - (i + chunkSize))]"
      using "1.IH" [OF True refl] .
    finally show ?thesis
      by (simp only: cnt slices_shift)
  next
    case False
    then show ?thesis by (simp add: sendChunks_done chunk_count_0)
  qed
qed

lemma concat_sent_chunks:
  "concat (sent_chunks (sendChunks sid i buf)) = drop i buf"
proof (induction sid i buf rule: sendChunks.induct)
  case (1 sid i audioData)
  show ?case
  proof (cases "i < length audioData")
    case True
    have "take chunkSize (drop i audioData) @ drop (i + chunkSize) audioData = drop i audioData"
      by (metis add.commute append_take_drop_id drop_drop)
    then show ?thesis
      using True "1.IH" [OF True refl] by (simp add: sendChunks_step)
  next
    case False
    then show ?thesis by (simp add: sendChunks_done)
  qed
qed

lemma sendChunks_paced:
  "sendChunks sid i buf =
     concat (map (\<lambda>c. [SendRealtimeInput sid c, Delay 50]) (sent_chunks (sendChunks sid i buf)))"
proof (induction sid i buf rule: sendChunks.induct)
  case (1 sid i audioData)
  show ?case
  proof (cases "i < length audioData")
    case True
    then show ?thesis
      using "1.IH" [OF True refl] by (simp add: sendChunks_step)
  next
    case False
    then show ?thesis by (simp add: sendChunks_done)
  qed
qed

lemma length_slice: "length (slice xs i j) = min (j - i) (length xs - i)"
  by (simp add: slice_def)

lemma chunk_nth:
  "k < chunk_count (length buf) \<Longrightarrow>
     sent_chunks (sendChunks sid 0 buf) ! k = slice buf (k * chunkSize) (k * chunkSize + chunkSize)"
  by (simp add: sent_chunks_sendChunks)

lemma chunk_length_pos:
  assumes "k < chunk_count (length buf)"
  shows "0 < length (sent_chunks (sendChunks sid 0 buf) ! k)"
  using chunk_count_bound [OF assms] chunkSize_pos
  by (simp add: chunk_nth [OF assms] length_slice)

lemma chunk_length_le:
  assumes "k < chunk_count (length buf)"
  shows "length (sent_chunks (sendChunks sid 0 buf) ! k) \<le> chunkSize"
  by (simp add: chunk_nth [OF assms] length_slice)

lemma chunk_length_full:
  assumes "Suc k < chunk_count (length buf)"
  shows "length (sent_chunks (sendChunks sid 0 buf) ! k) = chunkSize"
proof -
  have "k * chunkSize + chunkSize \<le> length buf"
    using chunk_count_bound [OF assms] by simp
  moreover have "k < chunk_count (length buf)"
    using assms by simp
  ultimately show ?thesis
    by (simp add: chunk_nth length_slice)
qed

lemma handleFileUpload_audio:
  "\<not> no_API_KEY e \<Longrightarrow>
     effects (handleFileUpload e (Some f) (AudioData buf) s) =
       effects s @ [Connect (fresh_session (effects s)), ReadFile, DecodeAudioData, ContextClose,
                       Resample]
         @ sendChunks (fresh_session (effects s)) 0 buf @ [SetTimeout 2000]"
  by (simp add: handleFileUpload_def startSession_key emit_def)

text \<open>
  Claim C4. For a resampled buffer of \<open>n\<close> samples the loop of \<^verbatim>\<open>handleFileUpload\<close>
  sends the slices \<open>[0, 4096)\<close>, \<open>[4096, 8192)\<close>, ... of the buffer, in this order:
  \<open>n / 4096\<close> rounded up of them, none empty, none longer than 4096 samples, all but the
  last of 4096 samples, and concatenated they are the buffer. Each send is followed by
  the 50 ms wait before the next. With a credential, the log of the upload is the
  connect, the decoding steps (with the close of the temporary audio context), these
  sends and waits, and the 2000 ms timer.
\<close>

theorem C4_upload_chunks:
  "sent_chunks (sendChunks sid 0 buf) =
     map (\<lambda>k. slice buf (k * chunkSize) (k * chunkSize + chunkSize)) [0..<chunk_count (length buf)]
   \<and> chunkSize = 4096
   \<and> length (sent_chunks (sendChunks sid 0 buf)) = (length buf + 4095) div 4096
   \<and> (\<forall>c \<in> set (sent_chunks (sendChunks sid 0 buf)). 0 < length c \<and> length c \<le> 4096)
   \<and> (\<forall>k. Suc k < length (sent_chunks (sendChunks sid 0 buf)) \<longrightarrow>
         length (sent_chunks (sendChunks sid 0 buf) ! k) = 4096)
   \<and> concat (sent_chunks (sendChunks sid 0 buf)) = buf
   \<and> sendChunks sid 0 buf =
       concat (map (\<lambda>c. [SendRealtimeInput sid c, Delay 50]) (sent_chunks (sendChunks sid 0 buf)))
   \<and> (\<not> no_API_KEY e \<longrightarrow>
        effects (handleFileUpload e (Some f) (AudioData buf) s) =
          effects s @ [Connect (fresh_session (effects s)), ReadFile, DecodeAudioData, ContextClose,
                       Resample]
            @ sendChunks (fresh_session (effects s)) 0 buf @ [SetTimeout 2000])"
proof -
  let ?cs = "sent_chunks (sendChunks sid 0 buf)"
  have slices: "?cs = map (\<lambda>k. slice buf (k * chunkSize) (k * chunkSize + chunkSize))
      [0..<chunk_count (length buf)]"
    using sent_chunks_sendChunks [of sid 0 buf] by simp
  have len: "length ?cs = chunk_count (length buf)"
    by (simp add: sent_chunks_sendChunks)
  have cnt: "chunk_count (length buf) = (length buf + 4095) div 4096"
    by (simp add: chunk_count_def chunkSize_def)
  have each: "\<forall>c \<in> set ?cs. 0 < length c \<and> length c \<le> chunkSize"
  proof
    fix c assume "c \<in> set ?cs"
    then obtain k where k: "k < length ?cs" "c = ?cs ! k"
      by (auto simp: in_set_conv_nth)
    then have "k < chunk_count (length buf)" using len by simp
    then show "0 < length c \<and> length c \<le> chunkSize"
      using k(2) chunk_length_pos [of k buf sid] chunk_length_le [of k buf sid] by simp
  qed
  have full: "\<forall>k. Suc k < length ?cs \<longrightarrow> length (?cs ! k) = chunkSize"
    using chunk_length_full [of _ buf sid] len by simp
  have cat: "concat ?cs = buf"
    using concat_sent_chunks [of sid 0 buf] by simp
  have up: "\<not> no_API_KEY e \<longrightarrow>
        effects (handleFileUpload e (Some f) (AudioData buf) s) =
          effects s @ [Connect (fresh_session (effects s)), ReadFile, DecodeAudioData, ContextClose,
                       Resample]
            @ sendChunks (fresh_session (effects s)) 0 buf @ [SetTimeout 2000]"
    using handleFileUpload_audio [of e f buf s] by blast
  have cs: "chunkSize = 4096" by (simp add: chunkSize_def)
  from slices len cnt each full cat up sendChunks_paced [of sid 0 buf] show ?thesis
    unfolding cs by (intro conjI) simp_all
qed

theorem C4_upload_chunks_witness:
  "\<not> no_API_KEY \<lparr>API_KEY = Some ''key''\<rparr>
   \<and> sent_chunks (sendChunks 0 0 (replicate 4096 (1::nat) @ [2, 3])) = [replicate 4096 1, [2, 3]]
   \<and> length (sent_chunks (sendChunks 0 0 (replicate 4096 (1::nat) @ [2, 3]))) = 2
   \<and> concat (sent_chunks (sendChunks 0 0 (replicate 4096 (1::nat) @ [2, 3])))
       = replicate 4096 1 @ [2, 3]
   \<and> effects (handleFileUpload \<lparr>API_KEY = Some ''key''\<rparr>
        (Some \<lparr>file_name = ''hearing.wav'', file_type = ''audio/wav''\<rparr>)
        (AudioData (replicate 4096 (1::nat) @ [2, 3])) initial_panel)
      = [Connect 0, ReadFile, DecodeAudioData, ContextClose, Resample,
         SendRealtimeInput 0 (replicate 4096 1), Delay 50, SendRealtimeInput 0 [2, 3], Delay 50,
         SetTimeout 2000]"
proof -
  let ?e = "\<lparr>API_KEY = Some ''key''\<rparr>"
  let ?f = "\<lparr>file_name = ''hearing.wav'', file_type = ''audio/wav''\<rparr>"
  let ?buf = "replicate 4096 (1::nat) @ [2, 3]"
  let ?s = "initial_panel :: nat panel"
  have k: "\<not> no_API_KEY ?e"
    by (simp add: no_API_KEY_def)
  have run: "sendChunks 0 0 ?buf =
      [SendRealtimeInput 0 (replicate 4096 1), Delay 50, SendRealtimeInput 0 [2, 3], Delay 50]"
    by (simp add: sendChunks_step sendChunks_done chunkSize_def)
  note inst = C4_upload_chunks [of 0 ?buf ?e ?f ?s]
  note c3 = inst [THEN conjunct2, THEN conjunct2]
  note c6 = c3 [THEN conjunct2, THEN conjunct2, THEN conjunct2]
  have len: "length (sent_chunks (sendChunks 0 0 ?buf)) = (length ?buf + 4095) div 4096"
    by (rule c3 [THEN conjunct1])
  have cat: "concat (sent_chunks (sendChunks 0 0 ?buf)) = ?buf"
    by (rule c6 [THEN conjunct1])
  have "effects (handleFileUpload ?e (Some ?f) (AudioData ?buf) ?s) =
      effects ?s
        @ [Connect (fresh_session (effects ?s)), ReadFile, DecodeAudioData, ContextClose, Resample]
        @ sendChunks (fresh_session (effects ?s)) 0 ?buf @ [SetTimeout 2000]"
    by (rule c6 [THEN conjunct2, THEN conjunct2, THEN mp, OF k])
  moreover have "effects ?s = []"
    by (simp add: initial_panel_def)
  ultimately have eff: "effects (handleFileUpload ?e (Some ?f) (AudioData ?buf) ?s) =
      [Connect 0, ReadFile, DecodeAudioData, ContextClose, Resample] @ sendChunks 0 0 ?buf @ [SetTimeout 2000]"
    by (simp add: fresh_session_def)
  have chunks: "sent_chunks (sendChunks 0 0 ?buf) = [replicate 4096 1, [2, 3]]"
    by (simp only: run sent_chunks.simps)
  have len2: "length (sent_chunks (sendChunks 0 0 ?buf)) = 2"
    using len by simp
  show ?thesis
    by (intro conjI) (fact k, fact chunks, fact len2, fact cat, simp only: eff run append.simps)
qed


section \<open>Properties of the text-to-speech panel\<close>

subsection \<open>Documents of an unsupported type\<close>

lemma handleFileChange_unsupported:
  assumes "file_type f \<noteq> ''application/pdf''" and "\<not> endsWith (file_name f) ''.docx''"
  shows "handleFileChange (Some f) thrown s =
    (None, s\<lparr>tts_error := Some UNSUPPORTED_TYPE, isLoading := False, audioUrl := None,
              text_state := [], tts_log := tts_log s @ [SetAudioUrl None, ResetFileInput]\<rparr>)"
  using assms by (simp add: handleFileChange_def tts_emit_def)

text \<open>
  Claim C8 as stated fails: the DOCX branch is chosen by the file name, not by the MIME
  type. A file of type \<^verbatim>\<open>text/plain\<close> named \<^verbatim>\<open>notes.docx\<close> is not rejected as
  unsupported: a reader is started, and its \<^verbatim>\<open>onload\<close> calls \<^verbatim>\<open>mammoth.extractRawText\<close>.
\<close>

theorem C8_unsupported_counterexample:
  "file_type \<lparr>file_name = ''notes.docx'', file_type = ''text/plain''\<rparr> \<noteq> ''application/pdf''
   \<and> fst (handleFileChange (Some \<lparr>file_name = ''notes.docx'', file_type = ''text/plain''\<rparr>) None
        initial_tts_panel) = Some DocxReader
   \<and> tts_error (snd (handleFileChange
        (Some \<lparr>file_name = ''notes.docx'', file_type = ''text/plain''\<rparr>) None initial_tts_panel))
       \<noteq> Some UNSUPPORTED_TYPE
   \<and> tts_log (docx_onload None (snd (handleFileChange
        (Some \<lparr>file_name = ''notes.docx'', file_type = ''text/plain''\<rparr>) None initial_tts_panel)))
       = [SetAudioUrl None, ReadAsArrayBuffer DocxReader, ResetFileInput, ExtractRawText]"
  by (simp add: handleFileChange_def start_reader_def endsWith_def tts_emit_def docx_onload_def
      initial_tts_panel_def)

text \<open>
  Claim C8, amended. A document whose MIME type is not \<^verbatim>\<open>application/pdf\<close> and whose
  name does not end in \<^verbatim>\<open>.docx\<close> is rejected with the unsupported-type error: the text
  is cleared, the loading flag is false, no reader is started, and the log gains no
  extraction call.
\<close>

theorem C8_unsupported_rejected:
  assumes "file_type f \<noteq> ''application/pdf''" and "\<not> endsWith (file_name f) ''.docx''"
  shows "fst (handleFileChange (Some f) thrown s) = None
    \<and> tts_error (snd (handleFileChange (Some f) thrown s)) = Some UNSUPPORTED_TYPE
    \<and> text_state (snd (handleFileChange (Some f) thrown s)) = []
    \<and> \<not> isLoading (snd (handleFileChange (Some f) thrown s))
    \<and> tts_log (snd (handleFileChange (Some f) thrown s)) =
        tts_log s @ [SetAudioUrl None, ResetFileInput]
    \<and> filter is_extraction (tts_log (snd (handleFileChange (Some f) thrown s))) =
        filter is_extraction (tts_log s)"
  by (simp add: handleFileChange_unsupported [OF assms])

theorem C8_unsupported_rejected_witness:
  "file_type \<lparr>file_name = ''minutes.txt'', file_type = ''text/plain''\<rparr> \<noteq> ''application/pdf''
   \<and> \<not> endsWith (file_name \<lparr>file_name = ''minutes.txt'', file_type = ''text/plain''\<rparr>) ''.docx''
   \<and> fst (handleFileChange (Some \<lparr>file_name = ''minutes.txt'', file_type = ''text/plain''\<rparr>) None
        initial_tts_panel) = None
   \<and> tts_error (snd (handleFileChange
        (Some \<lparr>file_name = ''minutes.txt'', file_type = ''text/plain''\<rparr>) None initial_tts_panel))
       = Some UNSUPPORTED_TYPE
   \<and> tts_log (snd (handleFileChange
        (Some \<lparr>file_name = ''minutes.txt'', file_type = ''text/plain''\<rparr>) None initial_tts_panel))
       = [SetAudioUrl None, ResetFileInput]"
proof -
  let ?f = "\<lparr>file_name = ''minutes.txt'', file_type = ''text/plain''\<rparr>"
  have t: "file_type ?f \<noteq> ''application/pdf''"
    by simp
  have n: "\<not> endsWith (file_name ?f) ''.docx''"
    by (simp add: endsWith_def)
  show ?thesis
    using t n C8_unsupported_rejected [OF t n, of None initial_tts_panel]
    by (simp add: initial_tts_panel_def)
qed

subsection \<open>Failed synthesis\<close>

lemma generateSpeechFromText_key:
  "\<not> no_API_KEY e \<Longrightarrow>
     generateSpeechFromText e t (Responded None) = ([GenerateContent t], Inl NO_AUDIO_DATA)
     \<and> generateSpeechFromText e t (Responded (Some [])) = ([GenerateContent t], Inl NO_AUDIO_DATA)
     \<and> generateSpeechFromText e t (RequestFailed m) = ([GenerateContent t], Inl m)"
  by (simp add: generateSpeechFromText_def)

lemma handleGenerateAudio_failed:
  assumes "trim (text_state s) \<noteq> []" and "\<not> isLoading s"
    and "snd (generateSpeechFromText e (text_state s) response) = Inl m"
  shows "handleGenerateAudio e response playable s =
     s\<lparr>tts_error := Some (''Fallo al generar audio: '' @ m), isLoading := False, audioUrl := None,
       tts_log := tts_log s @ SetAudioUrl None # fst (generateSpeechFromText e (text_state s) response)\<rparr>"
  using assms
  by (cases "generateSpeechFromText e (text_state s) response")
     (simp add: handleGenerateAudio_def tts_emit_def generate_catch_def)

lemma handleGenerateAudio_log:
  assumes "trim (text_state s) \<noteq> []" and "\<not> isLoading s"
  shows "\<exists>rest. tts_log (handleGenerateAudio e response playable s) =
     tts_log s @ SetAudioUrl None # fst (generateSpeechFromText e (text_state s) response) @ rest"
proof (cases "generateSpeechFromText e (text_state s) response")
  case (Pair es r)
  show ?thesis
  proof (cases r)
    case (Inl m)
    then show ?thesis
      using assms Pair by (simp add: handleGenerateAudio_def tts_emit_def generate_catch_def)
  next
    case (Inr b)
    then show ?thesis
      using assms Pair
      by (cases "playable b") (simp_all add: handleGenerateAudio_def tts_emit_def generate_catch_def)
  qed
qed

text \<open>
  Claim C9. In every attempt of \<^verbatim>\<open>handleGenerateAudio\<close> (a text that is not blank, and
  no load in progress) the first entry added to the log is \<^verbatim>\<open>setAudioUrl(null)\<close>, and
  the call of the synthesis service, if one is made, comes after it. When
  \<^verbatim>\<open>generateSpeechFromText\<close> throws, the error is displayed with its message, the
  loading flag is false and the playback URL is \<open>None\<close>, whatever it was before. With
  a credential, an answer without audio data and a rejected request are such throws.
\<close>

theorem C9_failed_synthesis:
  assumes "trim (text_state s) \<noteq> []" and "\<not> isLoading s"
  shows "(\<exists>rest. tts_log (handleGenerateAudio e response playable s) =
            tts_log s @ SetAudioUrl None # fst (generateSpeechFromText e (text_state s) response) @ rest)
    \<and> (\<forall>m. snd (generateSpeechFromText e (text_state s) response) = Inl m \<longrightarrow>
          audioUrl (handleGenerateAudio e response playable s) = None
          \<and> tts_error (handleGenerateAudio e response playable s) = Some (''Fallo al generar audio: '' @ m)
          \<and> \<not> isLoading (handleGenerateAudio e response playable s)
          \<and> tts_log (handleGenerateAudio e response playable s) =
              tts_log s @ SetAudioUrl None # fst (generateSpeechFromText e (text_state s) response))
    \<and> (\<not> no_API_KEY e \<longrightarrow>
          generateSpeechFromText e (text_state s) (Responded None)
            = ([GenerateContent (text_state s)], Inl NO_AUDIO_DATA)
          \<and> generateSpeechFromText e (text_state s) (RequestFailed msg)
            = ([GenerateContent (text_state s)], Inl msg))"
proof -
  have "\<forall>m. snd (generateSpeechFromText e (text_state s) response) = Inl m \<longrightarrow>
          audioUrl (handleGenerateAudio e response playable s) = None
          \<and> tts_error (handleGenerateAudio e response playable s) = Some (''Fallo al generar audio: '' @ m)
          \<and> \<not> isLoading (handleGenerateAudio e response playable s)
          \<and> tts_log (handleGenerateAudio e response playable s) =
              tts_log s @ SetAudioUrl None # fst (generateSpeechFromText e (text_state s) response)"
    by (simp add: handleGenerateAudio_failed [OF assms])
  then show ?thesis
    using handleGenerateAudio_log [OF assms, of e response playable]
      generateSpeechFromText_key [of e "text_state s" msg]
    by blast
qed

theorem C9_failed_synthesis_witness:
  "trim ''Buenos dias'' \<noteq> []
   \<and> audioUrl (handleGenerateAudio \<lparr>API_KEY = Some ''key''\<rparr> (Responded None) (\<lambda>b. Inr ''blob:new'')
        \<lparr>text_state = ''Buenos dias'', audioUrl = Some ''blob:old'', isLoading = False,
         tts_error = None, tts_log = []\<rparr>) = None
   \<and> tts_error (handleGenerateAudio \<lparr>API_KEY = Some ''key''\<rparr> (Responded None) (\<lambda>b. Inr ''blob:new'')
        \<lparr>text_state = ''Buenos dias'', audioUrl = Some ''blob:old'', isLoading = False,
         tts_error = None, tts_log = []\<rparr>) = Some (''Fallo al generar audio: '' @ NO_AUDIO_DATA)
   \<and> tts_log (handleGenerateAudio \<lparr>API_KEY = Some ''key''\<rparr> (Responded None) (\<lambda>b. Inr ''blob:new'')
        \<lparr>text_state = ''Buenos dias'', audioUrl = Some ''blob:old'', isLoading = False,
         tts_error = None, tts_log = []\<rparr>) = [SetAudioUrl None, GenerateContent ''Buenos dias'']"
proof -
  let ?e = "\<lparr>API_KEY = Some ''key''\<rparr>"
  let ?s = "\<lparr>text_state = ''Buenos dias'', audioUrl = Some ''blob:old'', isLoading = False,
         tts_error = None, tts_log = []\<rparr>"
  have "space_prefix ''Buenos dias'' = 0" and "space_suffix ''Buenos dias'' = 0"
    by (simp_all add: space_prefix_def space_suffix_def white_space_def)
  then have "trim ''Buenos dias'' = ''Buenos dias''"
    by (simp add: trim_def trimStart.simps trimEnd.simps)
  then have t: "trim (text_state ?s) \<noteq> []"
    by simp
  have l: "\<not> isLoading ?s"
    by simp
  have g: "generateSpeechFromText ?e (text_state ?s) (Responded None)
      = ([GenerateContent ''Buenos dias''], Inl NO_AUDIO_DATA)"
    by (simp add: generateSpeechFromText_def no_API_KEY_def)
  note inst = C9_failed_synthesis [OF t l, of ?e "Responded None" "\<lambda>b. Inr ''blob:new''"]
  from inst [THEN conjunct2, THEN conjunct1, rule_format, of NO_AUDIO_DATA] g t
  show ?thesis
    by simp
qed


end
